theory Spec2Isabelle
  imports Main "HOL-Library.DAList"
begin

section \<open>WatchDog: the data of \<open>index.js\<close>\<close>

text \<open>
  The bot keeps three process-wide caches: \<open>guildConfig\<close> (guild id to log channel id),
  \<open>nicknameHistory\<close> (guild id to user id to a list of nicknames) and \<open>client.invites\<close>
  (guild id to invite code to use count). The first two are mirrored in two JSON files.
  Identifiers are Discord snowflakes, kept as strings as in the source. A JavaScript object
  used as a dictionary is a map; a key that is absent reads as \<open>undefined\<close>, here \<open>None\<close>
  (the keys are strings of digits, so no inherited property of an object is ever read).
  Strings are character lists; \<open>substring(0, n)\<close> is \<open>take n\<close>.
\<close>

type_synonym snowflake = string

text \<open>A thrown value: \<open>e.code\<close> is defined for errors of the Discord API only.\<close>

datatype js_error =
    DiscordAPIError int string
  | ReferenceError string
  | Error string

fun err_code :: "js_error \<Rightarrow> int option" where
  "err_code (DiscordAPIError c m) = Some c"
| "err_code (ReferenceError m) = None"
| "err_code (Error m) = None"

text \<open>
  A file on disk: absent, present with content that cannot be read or parsed, or present
  with the JSON of a value. \<open>JSON.parse (JSON.stringify v)\<close> is taken to give \<open>v\<close> back.
\<close>

datatype 'a file_content = Absent | Unparsable | Stored 'a

text \<open>A JavaScript \<open>Date\<close>: an object (compared by identity with \<open>!==\<close>) holding a time in ms.\<close>

datatype Date = Date (date_ref: nat) (getTime: int)

text \<open>
  The two enumerations of discord.js that the source names. An audit entry can carry any
  action, so the kinds the source never names are kept by their number.
\<close>

datatype AuditLogEvent =
    GuildUpdate | ChannelUpdate | ChannelDelete | MemberKick | MemberBanAdd
  | MemberBanRemove | MemberUpdate | RoleUpdate | RoleDelete | MessageBulkDelete
  | MessagePin | MessageUnpin | OtherAuditLogEvent nat

datatype Colors =
    Blue | DarkGreen | DarkOrange | DarkRed | Green | Grey | LightGrey
  | LuminousVividPink | Orange | Purple | Red | Yellow

record user =
  user_id :: snowflake
  user_tag :: string
  user_username :: string
  user_bot :: bool
  user_createdAt :: Date
  user_avatarURL :: string

record guild =
  guild_id :: snowflake
  guild_name :: string
  guild_iconURL :: "string option"
  guild_verificationLevel :: nat
  guild_systemChannelId :: "snowflake option"
  guild_systemChannel :: "string option"

record role =
  role_id :: snowflake
  role_name :: string
  role_color :: nat
  role_permissions :: nat
  role_guild :: guild

record member =
  member_id :: snowflake
  member_user :: user
  member_nickname :: "string option"
  member_guild :: guild
  member_partial :: bool
  member_joinedAt :: "Date option"
  member_roles :: "role list"
  member_communicationDisabledUntil :: "Date option"

text \<open>
  A channel as the handlers read it. \<open>permissionOverwrites.cache\<close> is a discord.js
  Collection, a JavaScript \<open>Map\<close>: an association list whose keys are distinct, in
  insertion order. \<open>channel_mention\<close> is what the channel prints as inside a template.
\<close>

record overwrite =
  ow_allow :: nat
  ow_deny :: nat

record channel =
  channel_id :: snowflake
  channel_name :: string
  channel_type :: nat
  channel_guild :: "guild option"
  channel_partial :: bool
  channel_topic :: "string option"
  channel_rateLimitPerUser :: nat
  channel_permissionOverwrites :: "(snowflake, overwrite) alist"
  channel_mention :: string

record message_ev =
  message_guild :: "guild option"
  message_author :: "user option"
  message_channelId :: snowflake
  message_channel :: string
  message_content :: "string option"
  message_attachments :: "(string \<times> string) list"

record invite =
  invite_code :: string
  invite_uses :: nat
  invite_inviter :: "user option"

record audit_entry =
  entry_action :: AuditLogEvent
  entry_targetId :: "snowflake option"
  entry_createdTimestamp :: int
  entry_executor :: "user option"
  entry_reason :: "string option"

text \<open>What \<open>getAuditLogExecutor\<close> returns: \<open>{ executor, reason }\<close>, each possibly \<open>null\<close>.\<close>

record attribution =
  attr_executor :: "user option"
  attr_reason :: "string option"

text \<open>The embed that \<open>logEvent\<close> builds and sends.\<close>

record embed =
  embed_title :: string
  embed_description :: string
  embed_color :: Colors
  embed_timestamp :: int
  embed_footer :: string
  embed_author_name :: string
  embed_author_iconURL :: string
  embed_thumbnail :: "string option"

text \<open>
  The external interactions of a run, in the order in which they happen. The text of a
  console line is not kept, only its level.
\<close>

datatype effect =
    FetchAuditLogs snowflake nat "AuditLogEvent list"
  | FetchInvites snowflake
  | FetchChannel snowflake snowflake
  | ChannelSend snowflake embed
  | ConsoleLog
  | ConsoleWarn
  | ConsoleError

record bot_state =
  guildConfig :: "snowflake \<rightharpoonup> snowflake"
  nicknameHistory :: "snowflake \<rightharpoonup> (snowflake \<rightharpoonup> string list)"
  invites :: "snowflake \<rightharpoonup> (string \<rightharpoonup> nat)"
  config_file :: "(snowflake \<rightharpoonup> snowflake) file_content"
  history_file :: "(snowflake \<rightharpoonup> (snowflake \<rightharpoonup> string list)) file_content"
  effects :: "effect list"

text \<open>
  The world outside the process, as far as the code asks it: the clock, the Discord API
  (each call returns or throws) and the file system (a write to a file succeeds or throws).
  The clock is read as one instant for the whole run of a handler.
\<close>

record env =
  Date_now :: int
  client_user_id :: snowflake
  has_ManageGuild :: "snowflake \<Rightarrow> bool"
  fetchAuditLogs :: "snowflake \<Rightarrow> nat \<Rightarrow> AuditLogEvent list \<Rightarrow> js_error + audit_entry list"
  invites_fetch :: "snowflake \<Rightarrow> js_error + invite list"
  channels_fetch :: "snowflake \<Rightarrow> snowflake \<Rightarrow> js_error + channel option"
  channel_send :: "snowflake \<Rightarrow> embed \<Rightarrow> js_error option"
  writeFileSync :: "string \<Rightarrow> js_error option"

section \<open>Configuration and utilities\<close>

definition CONFIG_FILE :: string where
  "CONFIG_FILE = ''config.json''"

definition NICKNAME_HISTORY_FILE :: string where
  "NICKNAME_HISTORY_FILE = ''nicknameHistory.json''"

definition LOGO_URL :: string where
  "LOGO_URL = ''https://placehold.co/128x128/3498db/ffffff?text=WD''"

text \<open>Lines 48 to 51: the caches of a process that has just started, beside the files it finds.\<close>

definition startup :: "bot_state \<Rightarrow> bot_state" where
  "startup s = s\<lparr>guildConfig := Map.empty, nicknameHistory := Map.empty, invites := Map.empty\<rparr>"

definition console :: "effect \<Rightarrow> bot_state \<Rightarrow> bot_state" where
  "console l s = s\<lparr>effects := effects s @ [l]\<rparr>"

text \<open>
  \<open>loadConfig\<close>: each file is read when it exists; a read or parse that throws ends the
  \<open>try\<close> block, and the \<open>catch\<close> empties both caches.
\<close>

definition loadConfig :: "bot_state \<Rightarrow> bot_state" where
  "loadConfig s =
     (let failed = (\<lambda>t. console ConsoleError (t\<lparr>guildConfig := Map.empty, nicknameHistory := Map.empty\<rparr>))
      in case config_file s of
           Unparsable \<Rightarrow> failed s
         | c \<Rightarrow>
             (let s1 = console ConsoleLog (case c of Stored v \<Rightarrow> s\<lparr>guildConfig := v\<rparr> | _ \<Rightarrow> s)
              in case history_file s1 of
                   Unparsable \<Rightarrow> failed s1
                 | Stored h \<Rightarrow> console ConsoleLog (s1\<lparr>nicknameHistory := h\<rparr>)
                 | Absent \<Rightarrow> console ConsoleLog s1))"

text \<open>
  \<open>saveConfig\<close>: two whole-file writes in a row; the first write that throws ends the
  \<open>try\<close> block and is reported on the console.
\<close>

definition saveConfig :: "env \<Rightarrow> bot_state \<Rightarrow> bot_state" where
  "saveConfig env s =
     (case writeFileSync env CONFIG_FILE of
        Some e \<Rightarrow> console ConsoleError s
      | None \<Rightarrow>
          (let s1 = s\<lparr>config_file := Stored (guildConfig s)\<rparr>
           in case writeFileSync env NICKNAME_HISTORY_FILE of
                Some e \<Rightarrow> console ConsoleError s1
              | None \<Rightarrow> s1\<lparr>history_file := Stored (nicknameHistory s1)\<rparr>))"

text \<open>JavaScript truthiness of a string that may be \<open>null\<close>: neither \<open>null\<close> nor empty.\<close>

fun truthy :: "string option \<Rightarrow> bool" where
  "truthy None = False"
| "truthy (Some v) = (v \<noteq> [])"

text \<open>\<open>v || d\<close> on a string that may be \<open>null\<close>.\<close>

fun or_else :: "string option \<Rightarrow> string \<Rightarrow> string" where
  "or_else None d = d"
| "or_else (Some v) d = (if v = [] then d else v)"

text \<open>\<open>nicknameHistory[guildId]?.[userId] || []\<close> (line 128).\<close>

definition stored_history :: "bot_state \<Rightarrow> snowflake \<Rightarrow> snowflake \<Rightarrow> string list" where
  "stored_history s guildId userId =
     (case nicknameHistory s guildId of
        None \<Rightarrow> []
      | Some users \<Rightarrow> (case users userId of None \<Rightarrow> [] | Some history \<Rightarrow> history))"

text \<open>
  \<open>recordNickname\<close> (lines 100 to 119). The objects for the guild and the user are created
  when missing; \<open>unshift\<close> puts the nickname in front, \<open>slice(0, 20)\<close> keeps the first
  twenty, and the files are written only when the list has changed.
\<close>

definition recordNickname ::
  "env \<Rightarrow> guild option \<Rightarrow> member option \<Rightarrow> string option \<Rightarrow> bot_state \<Rightarrow> bot_state" where
  "recordNickname env guild member nickname s =
     (case (guild, member, nickname) of
        (Some g, Some m, Some n) \<Rightarrow>
          if n = [] then s
          else
            (let userId = member_id m;
                 guildId = guild_id g;
                 users0 = (case nicknameHistory s guildId of None \<Rightarrow> Map.empty | Some users \<Rightarrow> users);
                 users1 = (case users0 userId of None \<Rightarrow> users0(userId \<mapsto> []) | Some h \<Rightarrow> users0);
                 s1 = s\<lparr>nicknameHistory := (nicknameHistory s)(guildId \<mapsto> users1)\<rparr>;
                 history = (case users1 userId of None \<Rightarrow> [] | Some h \<Rightarrow> h)
             in if n \<notin> set history
                then saveConfig env
                       (s1\<lparr>nicknameHistory :=
                             (nicknameHistory s1)(guildId \<mapsto> users1(userId \<mapsto> take 20 (n # history)))\<rparr>)
                else s1)
      | _ \<Rightarrow> s)"

text \<open>\<open>Array.prototype.join\<close> on strings.\<close>

fun join :: "string \<Rightarrow> string list \<Rightarrow> string" where
  "join sep [] = []"
| "join sep [x] = x"
| "join sep (x # y # ys) = x @ sep @ join sep (y # ys)"

text \<open>\<open>getNicknameHistory\<close> (lines 127 to 132): \<open>slice(1)\<close> drops the first entry.\<close>

definition getNicknameHistory :: "bot_state \<Rightarrow> snowflake \<Rightarrow> snowflake \<Rightarrow> string" where
  "getNicknameHistory s guildId userId =
     (let history = stored_history s guildId userId
      in if length history = 0 then ''None recorded.'' else join '', '' (drop 1 history))"

section \<open>Log delivery\<close>

text \<open>
  The optional last argument of \<open>logEvent\<close> is a user or a guild member;
  \<open>user.user || user\<close> takes the user of a member.
\<close>

datatype identity = AsUser user | AsMember member

fun targetUser :: "identity \<Rightarrow> user" where
  "targetUser (AsUser u) = u"
| "targetUser (AsMember m) = member_user m"

definition build_embed :: "env \<Rightarrow> guild \<Rightarrow> string \<Rightarrow> string \<Rightarrow> Colors \<Rightarrow> identity option \<Rightarrow> embed" where
  "build_embed env guild title description color user =
     \<lparr>embed_title = title,
      embed_description = description,
      embed_color = color,
      embed_timestamp = Date_now env,
      embed_footer = ''WatchDog | Guild ID: '' @ guild_id guild,
      embed_author_name =
        (case user of
           Some u \<Rightarrow> user_tag (targetUser u) @ '' ('' @ user_id (targetUser u) @ '')''
         | None \<Rightarrow> ''WatchDog System''),
      embed_author_iconURL =
        (case user of Some u \<Rightarrow> user_avatarURL (targetUser u) | None \<Rightarrow> LOGO_URL),
      embed_thumbnail =
        (case user of Some u \<Rightarrow> Some (user_avatarURL (targetUser u)) | None \<Rightarrow> None)\<rparr>"

text \<open>
  The \<open>catch\<close> block of \<open>logEvent\<close> (lines 169 to 175): the failure is reported on the
  console, and on the codes 10003 (unknown channel) and 50001 (missing access) the guild's
  entry is deleted and both files are written.
\<close>

definition logEvent_catch :: "env \<Rightarrow> guild \<Rightarrow> js_error \<Rightarrow> bot_state \<Rightarrow> bot_state" where
  "logEvent_catch env guild e s =
     (let s1 = console ConsoleError s
      in if err_code e = Some 10003 \<or> err_code e = Some 50001
         then saveConfig env (s1\<lparr>guildConfig := (guildConfig s1)(guild_id guild := None)\<rparr>)
         else s1)"

text \<open>
  \<open>logEvent\<close> (lines 143 to 176). It returns at once when the guild has no channel id
  (absent, or an empty string); it returns after the fetch when the channel is missing or is
  not a text channel (type 0); otherwise it sends the embed. Whatever the fetch or the send
  throws is caught, so the function itself never throws.
\<close>

definition logEvent ::
  "env \<Rightarrow> guild \<Rightarrow> string \<Rightarrow> string \<Rightarrow> Colors \<Rightarrow> identity option \<Rightarrow> bot_state \<Rightarrow> bot_state" where
  "logEvent env guild title description color user s =
     (case guildConfig s (guild_id guild) of
        None \<Rightarrow> s
      | Some channelId \<Rightarrow>
          if channelId = [] then s
          else
            (let s1 = s\<lparr>effects := effects s @ [FetchChannel (guild_id guild) channelId]\<rparr>
             in case channels_fetch env (guild_id guild) channelId of
                  Inl e \<Rightarrow> logEvent_catch env guild e s1
                | Inr None \<Rightarrow> s1
                | Inr (Some channel) \<Rightarrow>
                    if channel_type channel \<noteq> 0 then s1
                    else
                      (let embed = build_embed env guild title description color user;
                           s2 = s1\<lparr>effects := effects s1 @ [ChannelSend (channel_id channel) embed]\<rparr>
                       in case channel_send env (channel_id channel) embed of
                            Some e \<Rightarrow> logEvent_catch env guild e s2
                          | None \<Rightarrow> s2)))"

section \<open>Audit attribution\<close>

text \<open>The \<open>type\<close> argument: one kind, or an array of kinds.\<close>

datatype type_arg = Single AuditLogEvent | Array "AuditLogEvent list"

fun types_of :: "type_arg \<Rightarrow> AuditLogEvent list" where
  "types_of (Single t) = [t]"
| "types_of (Array ts) = ts"

text \<open>
  The predicate of \<open>entries.find\<close> (line 197). \<open>!targetId\<close> holds for \<open>null\<close> and for the
  empty string; \<open>a.targetId === targetId\<close> compares the two strings.
\<close>

definition audit_match :: "env \<Rightarrow> AuditLogEvent list \<Rightarrow> snowflake option \<Rightarrow> audit_entry \<Rightarrow> bool" where
  "audit_match env types targetId a \<longleftrightarrow>
     entry_action a \<in> set types
     \<and> (\<not> truthy targetId \<or> entry_targetId a = targetId)
     \<and> Date_now env - entry_createdTimestamp a < 5000"

text \<open>
  \<open>getAuditLogExecutor\<close> (lines 185 to 208). The result is the value returned or the
  error thrown, beside the state.

  \<open>types\<close> is declared with \<open>const\<close> inside the \<open>try\<close> block, so its scope is that block.
  The \<open>catch\<close> block reads \<open>types\<close> in the template of its \<open>console.warn\<close> call (line 205),
  where no binding of that name is in scope (the function's parameters are \<open>guild\<close>,
  \<open>type\<close> and \<open>targetId\<close>; the module declares no \<open>types\<close>). Evaluating the argument
  throws a \<open>ReferenceError\<close> before \<open>console.warn\<close> is entered and before line 206 is
  reached: when the fetch throws, the function throws.
\<close>

definition getAuditLogExecutor ::
  "env \<Rightarrow> guild \<Rightarrow> type_arg \<Rightarrow> snowflake option \<Rightarrow> bot_state \<Rightarrow> (js_error + attribution) \<times> bot_state" where
  "getAuditLogExecutor env guild type targetId s =
     (let types = types_of type;
          s1 = s\<lparr>effects := effects s @ [FetchAuditLogs (guild_id guild) 5 types]\<rparr>
      in case fetchAuditLogs env (guild_id guild) 5 types of
           Inr entries \<Rightarrow>
             (let auditEntry = find (audit_match env types targetId) entries
              in (Inr \<lparr>attr_executor = (case auditEntry of Some a \<Rightarrow> entry_executor a | None \<Rightarrow> None),
                       attr_reason =
                         (case auditEntry of
                            Some a \<Rightarrow>
                              Some (or_else (entry_reason a) ''No reason provided in Audit Log.'')
                          | None \<Rightarrow> None)\<rparr>,
                  s1))
         | Inl e \<Rightarrow> (Inl (ReferenceError ''types is not defined''), s1))"

section \<open>Invite snapshots\<close>

text \<open>\<open>new Collection(invites.map(invite => [invite.code, invite.uses]))\<close>.\<close>

definition snapshot :: "invite list \<Rightarrow> (string \<rightharpoonup> nat)" where
  "snapshot invs = fold (\<lambda>invite m. m(invite_code invite \<mapsto> invite_uses invite)) invs Map.empty"

text \<open>\<open>cacheInvites\<close> (lines 214 to 226).\<close>

definition cacheInvites :: "env \<Rightarrow> guild \<Rightarrow> bot_state \<Rightarrow> bot_state" where
  "cacheInvites env guild s =
     (if \<not> has_ManageGuild env (guild_id guild) then s
      else
        (let s1 = s\<lparr>effects := effects s @ [FetchInvites (guild_id guild)]\<rparr>
         in case invites_fetch env (guild_id guild) of
              Inr guildInvites \<Rightarrow> s1\<lparr>invites := (invites s1)(guild_id guild \<mapsto> snapshot guildInvites)\<rparr>
            | Inl e \<Rightarrow> console ConsoleError s1))"

section \<open>Text of the log records\<close>

text \<open>
  Numbers inside a template print in decimal; \<open>toString(16).toUpperCase()\<close> prints in
  upper-case hexadecimal. Characters outside ASCII are written as their UTF-8 bytes.
\<close>

fun show_nat :: "nat \<Rightarrow> string" where
  "show_nat n = (if n < 10 then [''0123456789'' ! n] else show_nat (n div 10) @ [''0123456789'' ! (n mod 10)])"

definition show_int :: "int \<Rightarrow> string" where
  "show_int i = (if i < 0 then ''-'' @ show_nat (nat (- i)) else show_nat (nat i))"

fun show_HEX :: "nat \<Rightarrow> string" where
  "show_HEX n = (if n < 16 then [''0123456789ABCDEF'' ! n] else show_HEX (n div 16) @ [''0123456789ABCDEF'' ! (n mod 16)])"

declare show_nat.simps [simp del] show_HEX.simps [simp del]

definition nl :: string where
  "nl = [CHR 0x0A]"

definition title_joined :: string where
  "title_joined = [CHR 0xF0, CHR 0x9F, CHR 0x9F, CHR 0xA2] @ '' Member Joined''"

definition title_left :: string where
  "title_left = [CHR 0xF0, CHR 0x9F, CHR 0x94, CHR 0xB4] @ '' Member Left/Quit''"

definition title_kicked :: string where
  "title_kicked = [CHR 0xF0, CHR 0x9F, CHR 0x94, CHR 0xA8] @ '' Member Kicked''"

definition title_nickname :: string where
  "title_nickname = [CHR 0xF0, CHR 0x9F, CHR 0x93, CHR 0x9D] @ '' Nickname Changed (History Recorded)''"

definition title_roles :: string where
  "title_roles = [CHR 0xF0, CHR 0x9F, CHR 0x9B, CHR 0xA1, CHR 0xEF, CHR 0xB8, CHR 0x8F] @ '' Member Roles Updated''"

definition title_timed_out :: string where
  "title_timed_out = [CHR 0xE2, CHR 0x8F, CHR 0xB3] @ '' Member Timed Out''"

definition title_timeout_ended :: string where
  "title_timeout_ended = [CHR 0xE2, CHR 0x9C, CHR 0x85] @ '' Timeout Ended/Removed''"

definition title_message_deleted :: string where
  "title_message_deleted = [CHR 0xF0, CHR 0x9F, CHR 0x97, CHR 0x91, CHR 0xEF, CHR 0xB8, CHR 0x8F] @ '' Message Deleted''"

definition title_channel_updated :: string where
  "title_channel_updated = [CHR 0xE2, CHR 0x9A, CHR 0x99, CHR 0xEF, CHR 0xB8, CHR 0x8F] @ '' Channel Settings Updated''"

definition title_role_updated :: string where
  "title_role_updated = [CHR 0xE2, CHR 0x9A, CHR 0x99, CHR 0xEF, CHR 0xB8, CHR 0x8F] @ '' Role Settings Updated''"

definition title_server_updated :: string where
  "title_server_updated = [CHR 0xF0, CHR 0x9F, CHR 0x8C, CHR 0x90] @ '' Server Settings Updated''"

text \<open>\<open>`${u.tag} (${u.id})`\<close>, the way a moderator is printed.\<close>

definition tag_and_id :: "user \<Rightarrow> string" where
  "tag_and_id u = user_tag u @ '' ('' @ user_id u @ '')''"

section \<open>Member events\<close>

text \<open>
  A handler is an \<open>async\<close> function: it ends by returning (\<open>None\<close>) or by throwing
  (\<open>Some e\<close>, a rejected promise), beside the state it leaves. Calls are run to completion
  in program order.
\<close>

text \<open>Lines 435 to 440 of the join handler: the text about the invite that was used.\<close>

definition invite_text :: "invite option \<Rightarrow> string" where
  "invite_text usedInvite =
     (case usedInvite of
        Some i \<Rightarrow>
          nl @ nl @ ''**Invite Used:** `'' @ invite_code i @ ''`'' @ nl
          @ ''**Created By:** ''
          @ (case invite_inviter i of Some u \<Rightarrow> user_tag u | None \<Rightarrow> ''System/Unknown'') @ nl
          @ ''**Uses:** '' @ show_nat (invite_uses i)
      | None \<Rightarrow> nl @ nl @ ''**Invite Used:** Could not determine invite link.'')"

definition tracking_disabled_text :: string where
  "tracking_disabled_text =
     nl @ nl @ [CHR 0xE2, CHR 0x9A, CHR 0xA0, CHR 0xEF, CHR 0xB8, CHR 0x8F] @ '' Invite tracking disabled.''"

text \<open>Lines 417 and 418: the first two lines of the join record.\<close>

definition join_header :: "member \<Rightarrow> string" where
  "join_header member =
     (let created = show_int (getTime (user_createdAt (member_user member)) div 1000)
      in ''**User:** '' @ user_tag (member_user member) @ '' ('' @ member_id member @ '')'' @ nl
         @ ''**Account Created:** <t:'' @ created @ '':f> (<t:'' @ created @ '':R>)'')"

text \<open>
  The loop of lines 426 to 433 stops at the first live invite whose \<open>uses\<close> is above the
  cached count, \<open>cachedInvites.get(code) || 0\<close>. The write of line 430 goes to the old
  collection, which line 441 replaces, so it is not seen afterwards.
\<close>

definition used_invite :: "(string \<rightharpoonup> nat) \<Rightarrow> invite list \<Rightarrow> invite option" where
  "used_invite cachedInvites newInvites =
     find (\<lambda>invite. invite_uses invite >
                      (case cachedInvites (invite_code invite) of Some oldUses \<Rightarrow> oldUses | None \<Rightarrow> 0))
          newInvites"

text \<open>\<open>guildMemberAdd\<close> (lines 416 to 448). The live fetch is not inside a \<open>try\<close>.\<close>

definition guildMemberAdd :: "env \<Rightarrow> member \<Rightarrow> bot_state \<Rightarrow> js_error option \<times> bot_state" where
  "guildMemberAdd env member s =
     (let guild = member_guild member
      in case invites s (guild_id guild) of
           Some cachedInvites \<Rightarrow>
             (let s1 = s\<lparr>effects := effects s @ [FetchInvites (guild_id guild)]\<rparr>
              in case invites_fetch env (guild_id guild) of
                   Inl e \<Rightarrow> (Some e, s1)
                 | Inr newInvites \<Rightarrow>
                     (let usedInvite = used_invite cachedInvites newInvites;
                          description = join_header member @ invite_text usedInvite;
                          s2 = s1\<lparr>invites := (invites s1)(guild_id guild \<mapsto> snapshot newInvites)\<rparr>
                      in (None, logEvent env guild title_joined description Green (Some (AsMember member)) s2)))
         | None \<Rightarrow>
             (None, logEvent env guild title_joined (join_header member @ tracking_disabled_text)
                      Green (Some (AsMember member)) s))"

text \<open>Lines 452 to 457: the first two lines of the leave record.\<close>

definition leave_header :: "member \<Rightarrow> string" where
  "leave_header member =
     ''**User:** '' @ user_tag (member_user member) @ '' ('' @ member_id member @ '')'' @ nl
     @ (case member_joinedAt member of
          Some d \<Rightarrow> ''**Joined:** <t:'' @ show_int (getTime d div 1000) @ '':f>'' @ nl
        | None \<Rightarrow> ''**Joined:** Time unknown'' @ nl)"

text \<open>\<open>guildMemberRemove\<close> (lines 451 to 471).\<close>

definition guildMemberRemove :: "env \<Rightarrow> member \<Rightarrow> bot_state \<Rightarrow> js_error option \<times> bot_state" where
  "guildMemberRemove env member s =
     (case getAuditLogExecutor env (member_guild member) (Single MemberKick) (Some (member_id member)) s of
        (Inl e, s1) \<Rightarrow> (Some e, s1)
      | (Inr found, s1) \<Rightarrow>
          (case attr_executor found of
             Some executor \<Rightarrow>
               (None, logEvent env (member_guild member) title_kicked
                        (leave_header member @ nl @ ''**Responsible Mod:** '' @ tag_and_id executor @ nl
                         @ ''**Reason:** '' @ or_else (attr_reason found) ''No reason provided.'')
                        Orange (Some (AsMember member)) s1)
           | None \<Rightarrow>
               (None, logEvent env (member_guild member) title_left (leave_header member)
                        Red (Some (AsMember member)) s1)))"

text \<open>\<open>a !== b\<close> on two dates that may be \<open>null\<close>: objects differ unless they are the same object.\<close>

fun date_neq :: "Date option \<Rightarrow> Date option \<Rightarrow> bool" where
  "date_neq None None = False"
| "date_neq (Some a) (Some b) = (date_ref a \<noteq> date_ref b)"
| "date_neq a b = True"

text \<open>\<open>d && d > new Date()\<close>.\<close>

fun in_future :: "env \<Rightarrow> Date option \<Rightarrow> bool" where
  "in_future env None = False"
| "in_future env (Some d) = (getTime d > Date_now env)"

text \<open>Lines 478 to 486: the nickname part of the member-update handler.\<close>

definition nickname_changed :: "env \<Rightarrow> member \<Rightarrow> member \<Rightarrow> bot_state \<Rightarrow> bot_state" where
  "nickname_changed env oldMember newMember s =
     (let s1 = recordNickname env (Some (member_guild newMember)) (Some newMember)
                 (Some (or_else (member_nickname newMember) (user_username (member_user newMember)))) s;
          pastNicks = getNicknameHistory s1 (guild_id (member_guild newMember)) (member_id newMember);
          description =
            ''**Old Nick:** '' @ or_else (member_nickname oldMember) ''None'' @ nl
            @ ''**New Nick:** '' @ or_else (member_nickname newMember) ''None'' @ nl @ nl
            @ ''**Past Nicknames:** '' @ pastNicks
      in logEvent env (member_guild newMember) title_nickname description Blue (Some (AsMember newMember)) s1)"

text \<open>Lines 489 to 502: the role part.\<close>

definition roles_changed :: "env \<Rightarrow> member \<Rightarrow> member \<Rightarrow> bot_state \<Rightarrow> bot_state" where
  "roles_changed env oldMember newMember s =
     (let addedRoles = filter (\<lambda>role. role_id role \<notin> set (map role_id (member_roles oldMember)))
                         (member_roles newMember);
          removedRoles = filter (\<lambda>role. role_id role \<notin> set (map role_id (member_roles newMember)))
                           (member_roles oldMember)
      in if length addedRoles > 0 \<or> length removedRoles > 0
         then
           (let description = ''**User:** '' @ user_tag (member_user newMember) @ '' ('' @ member_id newMember @ '')'' @ nl;
                roleDetails =
                  (if length addedRoles > 0
                   then ''**Roles Added:** '' @ join '', '' (map role_name addedRoles) @ nl else [])
                  @ (if length removedRoles > 0
                     then ''**Roles Removed:** '' @ join '', '' (map role_name removedRoles) @ nl else [])
            in logEvent env (member_guild newMember) title_roles (description @ roleDetails)
                 LuminousVividPink (Some (AsMember newMember)) s)
         else s)"

text \<open>Lines 505 to 521: the timeout part, the only one that can throw.\<close>

definition timeout_changed :: "env \<Rightarrow> member \<Rightarrow> member \<Rightarrow> bot_state \<Rightarrow> js_error option \<times> bot_state" where
  "timeout_changed env oldMember newMember s =
     (let oldTimeout = member_communicationDisabledUntil oldMember;
          newTimeout = member_communicationDisabledUntil newMember
      in if date_neq oldTimeout newTimeout
         then
           (case getAuditLogExecutor env (member_guild newMember) (Single MemberUpdate)
                   (Some (member_id newMember)) s of
              (Inl e, s1) \<Rightarrow> (Some e, s1)
            | (Inr found, s1) \<Rightarrow>
                (let moderator = (case attr_executor found of
                                    Some executor \<Rightarrow> tag_and_id executor
                                  | None \<Rightarrow> ''Unknown Moderator'');
                     who = ''**User:** '' @ user_tag (member_user newMember) @ '' ('' @ member_id newMember @ '')'' @ nl
                 in if in_future env newTimeout
                    then
                      (let untilTimestamp =
                             show_int ((case newTimeout of Some d \<Rightarrow> getTime d | None \<Rightarrow> 0) div 1000)
                       in (None, logEvent env (member_guild newMember) title_timed_out
                                   (who @ ''**Moderator:** '' @ moderator @ nl
                                    @ ''**Until:** <t:'' @ untilTimestamp @ '':f> (<t:'' @ untilTimestamp @ '':R>)'' @ nl
                                    @ ''**Reason:** '' @ or_else (attr_reason found) ''No reason provided.'')
                                   DarkOrange (Some (AsMember newMember)) s1))
                    else if in_future env oldTimeout
                    then (None, logEvent env (member_guild newMember) title_timeout_ended
                                  (who @ ''**Action Performed By:** '' @ moderator @ nl
                                   @ ''**Reason:** Timeout lifted/expired.'')
                                  Green (Some (AsMember newMember)) s1)
                    else (None, s1)))
         else (None, s))"

text \<open>\<open>guildMemberUpdate\<close> (lines 474 to 522).\<close>

definition guildMemberUpdate :: "env \<Rightarrow> member \<Rightarrow> member \<Rightarrow> bot_state \<Rightarrow> js_error option \<times> bot_state" where
  "guildMemberUpdate env oldMember newMember s =
     (if member_partial oldMember \<or> member_partial newMember then (None, s)
      else
        (let s1 = (if member_nickname oldMember \<noteq> member_nickname newMember
                   then nickname_changed env oldMember newMember s else s);
             s2 = roles_changed env oldMember newMember s1
         in timeout_changed env oldMember newMember s2))"

section \<open>Message and channel events\<close>

text \<open>Lines 540 to 559: the text of a message-deleted record.\<close>

definition deleted_text :: "message_ev \<Rightarrow> string" where
  "deleted_text message =
     (let authorTag = (case message_author message of Some a \<Rightarrow> user_tag a | None \<Rightarrow> ''Unknown/Cached'');
          authorId = (case message_author message of Some a \<Rightarrow> user_id a | None \<Rightarrow> ''Unknown'');
          isBot = (case message_author message of Some a \<Rightarrow> user_bot a | None \<Rightarrow> False);
          description0 =
            ''**Author:** '' @ authorTag @ '' ('' @ authorId @ '') '' @ (if isBot then ''(BOT)'' else []) @ nl
            @ ''**Channel:** '' @ message_channel message @ nl;
          description1 =
            (if truthy (message_content message)
             then description0 @ nl @ ''**Content:** '' @ nl @ ''```'' @ nl
                  @ take 1000 (or_else (message_content message) []) @ nl @ ''```''
             else description0)
      in if length (message_attachments message) > 0
         then description1 @ nl @ ''**Deleted Attachments:** (''
              @ show_nat (length (message_attachments message)) @ '' files)'' @ nl
              @ concat (map (\<lambda>(name, url). ''- ['' @ name @ ''](''  @ url @ '')'' @ nl)
                            (message_attachments message))
         else if \<not> truthy (message_content message)
         then description1 @ nl @ ''**Content:** (Unknown/Empty)''
         else description1)"

text \<open>
  \<open>messageDelete\<close> (lines 527 to 562). Two guards come first: no guild, and an author that
  is a bot other than this bot. Then the bulk-delete lookup, on the channel's id.
\<close>

definition messageDelete :: "env \<Rightarrow> message_ev \<Rightarrow> bot_state \<Rightarrow> js_error option \<times> bot_state" where
  "messageDelete env message s =
     (case message_guild message of
        None \<Rightarrow> (None, s)
      | Some guild \<Rightarrow>
          if (case message_author message of
                Some a \<Rightarrow> user_bot a \<and> user_id a \<noteq> client_user_id env
              | None \<Rightarrow> False)
          then (None, s)
          else
            (case getAuditLogExecutor env guild (Single MessageBulkDelete)
                    (Some (message_channelId message)) s of
               (Inl e, s1) \<Rightarrow> (Some e, s1)
             | (Inr found, s1) \<Rightarrow>
                 (case attr_executor found of
                    Some bulkExecutor \<Rightarrow> (None, s1)
                  | None \<Rightarrow>
                      (None, logEvent env guild title_message_deleted (deleted_text message) Red
                               (map_option AsUser (message_author message)) s1))))"

text \<open>Lines 625 to 652: the list of changes between two snapshots of a channel.\<close>

definition channel_changes :: "channel \<Rightarrow> channel \<Rightarrow> string list" where
  "channel_changes oldChannel newChannel =
     (let oldPerms = channel_permissionOverwrites oldChannel;
          newPerms = channel_permissionOverwrites newChannel;
          changedPerms =
            DAList.filter
              (\<lambda>(id, newOverride).
                 case DAList.lookup oldPerms id of
                   None \<Rightarrow> True
                 | Some oldOverride \<Rightarrow>
                     ow_allow oldOverride \<noteq> ow_allow newOverride \<or> ow_deny oldOverride \<noteq> ow_deny newOverride)
              newPerms
      in (if channel_name oldChannel \<noteq> channel_name newChannel
          then [''Name changed from `'' @ channel_name oldChannel @ ''` to `'' @ channel_name newChannel @ ''`'']
          else [])
         @ (if channel_topic oldChannel \<noteq> channel_topic newChannel then [''Topic was modified.''] else [])
         @ (if channel_rateLimitPerUser oldChannel \<noteq> channel_rateLimitPerUser newChannel
            then [''Slowmode changed from `'' @ show_nat (channel_rateLimitPerUser oldChannel) @ ''s` to `''
                  @ show_nat (channel_rateLimitPerUser newChannel) @ ''s`'']
            else [])
         @ (if length (DAList.impl_of oldPerms) \<noteq> length (DAList.impl_of newPerms)
            then [''Permission Overrides: Count changed from '' @ show_nat (length (DAList.impl_of oldPerms))
                  @ '' to '' @ show_nat (length (DAList.impl_of newPerms)) @ ''.'']
            else if length (DAList.impl_of changedPerms) > 0
            then [''Permission Overrides: '' @ show_nat (length (DAList.impl_of changedPerms))
                  @ '' roles/users had their channel permissions modified.'']
            else []))"

text \<open>\<open>channelUpdate\<close> (lines 622 to 662).\<close>

definition channelUpdate :: "env \<Rightarrow> channel \<Rightarrow> channel \<Rightarrow> bot_state \<Rightarrow> js_error option \<times> bot_state" where
  "channelUpdate env oldChannel newChannel s =
     (case channel_guild newChannel of
        None \<Rightarrow> (None, s)
      | Some guild \<Rightarrow>
          if channel_partial oldChannel \<or> channel_partial newChannel then (None, s)
          else
            (let changes = channel_changes oldChannel newChannel
             in if length changes = 0 then (None, s)
                else
                  (case getAuditLogExecutor env guild (Single ChannelUpdate) (Some (channel_id newChannel)) s of
                     (Inl e, s1) \<Rightarrow> (Some e, s1)
                   | (Inr found, s1) \<Rightarrow>
                       (let moderator = (case attr_executor found of
                                           Some executor \<Rightarrow> tag_and_id executor
                                         | None \<Rightarrow> ''Unknown'');
                            description =
                              ''**Channel:** '' @ channel_name newChannel @ '' ('' @ channel_mention newChannel @ '')'' @ nl
                              @ ''**Moderator:** '' @ moderator @ nl @ nl
                              @ ''**Changes:**'' @ nl @ ''- '' @ join (nl @ ''- '') changes
                        in (None, logEvent env guild title_channel_updated description Yellow None s1)))))"

section \<open>Role and guild events\<close>

text \<open>Lines 682 to 692.\<close>

definition role_changes :: "role \<Rightarrow> role \<Rightarrow> string list" where
  "role_changes oldRole newRole =
     (if role_name oldRole \<noteq> role_name newRole
      then [''Name changed from `'' @ role_name oldRole @ ''` to `'' @ role_name newRole @ ''`'']
      else [])
     @ (if role_color oldRole \<noteq> role_color newRole
        then [''Color changed from `#'' @ show_HEX (role_color oldRole) @ ''` to `#''
              @ show_HEX (role_color newRole) @ ''`'']
        else [])
     @ (if \<not> (role_permissions oldRole = role_permissions newRole)
        then [''Permissions were modified.''] else [])"

text \<open>\<open>roleUpdate\<close> (lines 681 to 702).\<close>

definition roleUpdate :: "env \<Rightarrow> role \<Rightarrow> role \<Rightarrow> bot_state \<Rightarrow> js_error option \<times> bot_state" where
  "roleUpdate env oldRole newRole s =
     (let changes = role_changes oldRole newRole
      in if length changes = 0 then (None, s)
         else
           (case getAuditLogExecutor env (role_guild newRole) (Single RoleUpdate) (Some (role_id newRole)) s of
              (Inl e, s1) \<Rightarrow> (Some e, s1)
            | (Inr found, s1) \<Rightarrow>
                (let moderator = (case attr_executor found of
                              Some executor \<Rightarrow> tag_and_id executor
                            | None \<Rightarrow> ''Unknown'');
                     description =
                       ''**Role:** '' @ role_name newRole @ '' ('' @ role_id newRole @ '')'' @ nl
                       @ ''**Moderator:** '' @ moderator @ nl @ nl
                       @ ''**Changes:**'' @ nl @ ''- '' @ join (nl @ ''- '') changes
                 in (None, logEvent env (role_guild newRole) title_role_updated description Yellow None s1))))"

text \<open>\<open>levels[v]\<close> (line 715): an index past the array prints as \<open>undefined\<close>.\<close>

definition levels :: "nat \<Rightarrow> string" where
  "levels v = (if v < 5 then [''None'', ''Low'', ''Medium'', ''High'', ''Highest''] ! v else ''undefined'')"

text \<open>Lines 706 to 720.\<close>

definition guild_changes :: "guild \<Rightarrow> guild \<Rightarrow> string list" where
  "guild_changes oldGuild newGuild =
     (if guild_name oldGuild \<noteq> guild_name newGuild
      then [''Name changed from `'' @ guild_name oldGuild @ ''` to `'' @ guild_name newGuild @ ''`'']
      else [])
     @ (if guild_iconURL oldGuild \<noteq> guild_iconURL newGuild then [''Icon changed.''] else [])
     @ (if guild_verificationLevel oldGuild \<noteq> guild_verificationLevel newGuild
        then [''Verification Level changed from `'' @ levels (guild_verificationLevel oldGuild)
              @ ''` to `'' @ levels (guild_verificationLevel newGuild) @ ''`'']
        else [])
     @ (if guild_systemChannelId oldGuild \<noteq> guild_systemChannelId newGuild
        then [''System Channel changed to '' @ or_else (guild_systemChannel newGuild) ''None'']
        else [])"

text \<open>\<open>guildUpdate\<close> (lines 705 to 729); the lookup is made without a target id.\<close>

definition guildUpdate :: "env \<Rightarrow> guild \<Rightarrow> guild \<Rightarrow> bot_state \<Rightarrow> js_error option \<times> bot_state" where
  "guildUpdate env oldGuild newGuild s =
     (let changes = guild_changes oldGuild newGuild
      in if length changes = 0 then (None, s)
         else
           (case getAuditLogExecutor env newGuild (Single GuildUpdate) None s of
              (Inl e, s1) \<Rightarrow> (Some e, s1)
            | (Inr found, s1) \<Rightarrow>
                (let moderator = (case attr_executor found of
                              Some executor \<Rightarrow> tag_and_id executor
                            | None \<Rightarrow> ''Unknown/Automatic'');
                     description =
                       ''**Moderator:** '' @ moderator @ nl @ nl
                       @ ''**Changes:**'' @ nl @ ''- '' @ join (nl @ ''- '') changes
                 in (None, logEvent env newGuild title_server_updated description DarkGreen None s1))))"

section \<open>Sequences of calls, and inputs for the examples\<close>

text \<open>What the nickname rules promise of one stored list: at most 20 entries, no entry twice, no empty entry.\<close>

definition history_ok :: "string list \<Rightarrow> bool" where
  "history_ok h \<longleftrightarrow> length h \<le> 20 \<and> distinct h \<and> [] \<notin> set h"

text \<open>A sequence of calls of \<open>recordNickname\<close>, each with its three arguments, run in order.\<close>

fun recordNicknames ::
  "env \<Rightarrow> (guild option \<times> member option \<times> string option) list \<Rightarrow> bot_state \<Rightarrow> bot_state" where
  "recordNicknames env [] s = s"
| "recordNicknames env ((guild, member, nickname) # calls) s =
     recordNicknames env calls (recordNickname env guild member nickname s)"

text \<open>
  A small world for the examples: guild \<open>g1\<close>, a moderator, a member, an API whose calls all
  succeed and return nothing, a disk that takes every write, and a process that has just
  started with no file on disk.
\<close>

definition guild1 :: guild where
  "guild1 = \<lparr>guild_id = ''g1'', guild_name = ''Guild One'', guild_iconURL = None,
             guild_verificationLevel = 0, guild_systemChannelId = None, guild_systemChannel = None\<rparr>"

definition moderator1 :: user where
  "moderator1 = \<lparr>user_id = ''900'', user_tag = ''mod#0001'', user_username = ''mod'', user_bot = False,
                 user_createdAt = Date 0 1000, user_avatarURL = ''https://cdn/900.png''\<rparr>"

definition user1 :: user where
  "user1 = \<lparr>user_id = ''42'', user_tag = ''ann#0042'', user_username = ''ann'', user_bot = False,
            user_createdAt = Date 1 2000, user_avatarURL = ''https://cdn/42.png''\<rparr>"

definition member1 :: member where
  "member1 = \<lparr>member_id = ''42'', member_user = user1, member_nickname = None, member_guild = guild1,
              member_partial = False, member_joinedAt = None, member_roles = [],
              member_communicationDisabledUntil = None\<rparr>"

definition log_channel1 :: channel where
  "log_channel1 = \<lparr>channel_id = ''c1'', channel_name = ''logs'', channel_type = 0,
                   channel_guild = Some guild1, channel_partial = False, channel_topic = None,
                   channel_rateLimitPerUser = 0, channel_permissionOverwrites = DAList.empty,
                   channel_mention = ''<#c1>''\<rparr>"

definition quiet_env :: env where
  "quiet_env = \<lparr>Date_now = 100000, client_user_id = ''1'', has_ManageGuild = (\<lambda>g. True),
                fetchAuditLogs = (\<lambda>g limit types. Inr []), invites_fetch = (\<lambda>g. Inr []),
                channels_fetch = (\<lambda>g c. Inr (Some log_channel1)), channel_send = (\<lambda>c e. None),
                writeFileSync = (\<lambda>f. None)\<rparr>"

definition fresh_state :: bot_state where
  "fresh_state = \<lparr>guildConfig = Map.empty, nicknameHistory = Map.empty, invites = Map.empty,
                  config_file = Absent, history_file = Absent, effects = []\<rparr>"

text \<open>
  The candidate of the specification, in its words: the kind is in the requested set; when
  a target id is given (a non-empty string), the entry's target equals it; the entry's
  age, the current time minus its timestamp, is below 5000 ms.
\<close>

definition spec_candidate :: "env \<Rightarrow> AuditLogEvent list \<Rightarrow> snowflake option \<Rightarrow> audit_entry \<Rightarrow> bool" where
  "spec_candidate env kinds target a \<longleftrightarrow>
     entry_action a \<in> set kinds
     \<and> (truthy target \<longrightarrow> entry_targetId a = target)
     \<and> Date_now env - entry_createdTimestamp a < 5000"

text \<open>The reason of an entry, with the default text where the entry has none.\<close>

definition spec_reason :: "audit_entry \<Rightarrow> string" where
  "spec_reason a =
     (case entry_reason a of
        None \<Rightarrow> ''No reason provided in Audit Log.''
      | Some r \<Rightarrow> if r = [] then ''No reason provided in Audit Log.'' else r)"



text \<open>The cached count of an invite code, 0 for a code the snapshot does not have.\<close>

definition cached_uses :: "(string \<rightharpoonup> nat) \<Rightarrow> string \<Rightarrow> nat" where
  "cached_uses cached c = (case cached c of Some n \<Rightarrow> n | None \<Rightarrow> 0)"

text \<open>
  The invites of the two examples of the join handler, and guild \<open>g1\<close> with the log channel
  \<open>c1\<close> and the snapshot A:5, B:2.
\<close>

definition invite_A5 :: invite where
  "invite_A5 = \<lparr>invite_code = ''A'', invite_uses = 5, invite_inviter = Some moderator1\<rparr>"

definition invite_B2 :: invite where
  "invite_B2 = \<lparr>invite_code = ''B'', invite_uses = 2, invite_inviter = None\<rparr>"

definition invite_B3 :: invite where
  "invite_B3 = \<lparr>invite_code = ''B'', invite_uses = 3, invite_inviter = Some moderator1\<rparr>"

definition tracked_configured_state :: bot_state where
  "tracked_configured_state =
     fresh_state\<lparr>guildConfig := [''g1'' \<mapsto> ''c1''], invites := [''g1'' \<mapsto> [''A'' \<mapsto> 5, ''B'' \<mapsto> 2]]\<rparr>"

definition live_env :: "invite list \<Rightarrow> env" where
  "live_env live = quiet_env\<lparr>invites_fetch := (\<lambda>g. Inr live)\<rparr>"

text \<open>
  Guild \<open>g1\<close> with the log channel \<open>c1\<close>; a message written by another bot and one written
  by a person, both in channel \<open>c7\<close>; and an audit log with a recent purge of that channel.
\<close>

definition configured_state :: bot_state where
  "configured_state = fresh_state\<lparr>guildConfig := [''g1'' \<mapsto> ''c1'']\<rparr>"

definition other_bot :: user where
  "other_bot = \<lparr>user_id = ''555'', user_tag = ''helper#0000'', user_username = ''helper'', user_bot = True,
                user_createdAt = Date 2 3000, user_avatarURL = ''https://cdn/555.png''\<rparr>"

definition bot_message :: message_ev where
  "bot_message = \<lparr>message_guild = Some guild1, message_author = Some other_bot, message_channelId = ''c7'',
                  message_channel = ''<#c7>'', message_content = Some ''beep'', message_attachments = []\<rparr>"

definition purge_entries :: "audit_entry list" where
  "purge_entries =
     [\<lparr>entry_action = MessageBulkDelete, entry_targetId = Some ''c7'', entry_createdTimestamp = 99000,
       entry_executor = Some moderator1, entry_reason = None\<rparr>]"

definition purge_env :: env where
  "purge_env = quiet_env\<lparr>fetchAuditLogs := (\<lambda>g limit types. Inr purge_entries)\<rparr>"

definition user_message :: message_ev where
  "user_message = \<lparr>message_guild = Some guild1, message_author = Some user1, message_channelId = ''c7'',
                   message_channel = ''<#c7>'', message_content = Some ''hello'', message_attachments = []\<rparr>"

text \<open>The first guard of the message-delete handler after the guild check (line 531).\<close>

definition by_other_bot :: "env \<Rightarrow> message_ev \<Rightarrow> bool" where
  "by_other_bot env message \<longleftrightarrow>
     (case message_author message of
        Some a \<Rightarrow> user_bot a \<and> user_id a \<noteq> client_user_id env
      | None \<Rightarrow> False)"

text \<open>A role, and a channel with one permission overwrite.\<close>

definition role1 :: role where
  "role1 = \<lparr>role_id = ''r1'', role_name = ''helpers'', role_color = 255, role_permissions = 8,
            role_guild = guild1\<rparr>"

definition channel2 :: channel where
  "channel2 = \<lparr>channel_id = ''c2'', channel_name = ''general'', channel_type = 0,
               channel_guild = Some guild1, channel_partial = False, channel_topic = Some ''talk'',
               channel_rateLimitPerUser = 5,
               channel_permissionOverwrites =
                 DAList.update ''r1'' \<lparr>ow_allow = 1024, ow_deny = 2048\<rparr> DAList.empty,
               channel_mention = ''<#c2>''\<rparr>"

text \<open>The two error codes that \<open>logEvent\<close> takes for an unreachable destination (line 171).\<close>

definition unreachable :: "js_error \<Rightarrow> bool" where
  "unreachable e \<longleftrightarrow> err_code e = Some 10003 \<or> err_code e = Some 50001"

text \<open>
  A delivery that fails with the error \<open>e\<close>: the fetch of the configured channel throws
  \<open>e\<close>, or the fetch gives a text channel and sending the embed to it throws \<open>e\<close>.
\<close>

definition delivery_fails ::
  "env \<Rightarrow> guild \<Rightarrow> snowflake \<Rightarrow> embed \<Rightarrow> js_error \<Rightarrow> bool" where
  "delivery_fails env guild channelId sent e \<longleftrightarrow>
     channels_fetch env (guild_id guild) channelId = Inl e
     \<or> (case channels_fetch env (guild_id guild) channelId of
           Inr (Some channel) \<Rightarrow> channel_type channel = 0 \<and> channel_send env (channel_id channel) sent = Some e
         | _ \<Rightarrow> False)"

text \<open>A world where the bot may not read the audit log: every fetch of it throws.\<close>

definition no_audit_access_env :: env where
  "no_audit_access_env =
     quiet_env\<lparr>fetchAuditLogs := (\<lambda>g limit types. Inl (DiscordAPIError 50013 ''Missing Permissions''))\<rparr>"

text \<open>Two worlds where delivery fails: the log channel is gone, or the bot may not send to it.\<close>

definition deleted_channel_env :: env where
  "deleted_channel_env =
     quiet_env\<lparr>channels_fetch := (\<lambda>g c. Inl (DiscordAPIError 10003 ''Unknown Channel''))\<rparr>"

definition no_permission_env :: env where
  "no_permission_env =
     quiet_env\<lparr>channel_send := (\<lambda>c e. Some (DiscordAPIError 50013 ''Missing Permissions''))\<rparr>"

text \<open>
  The process after member \<open>42\<close> of guild \<open>g1\<close> was first called \<open>ann\<close>, then \<open>annie\<close>;
  and the member under each of the two nicknames.
\<close>

definition renamed_state :: bot_state where
  "renamed_state =
     recordNicknames quiet_env
       [(Some guild1, Some member1, Some ''ann''), (Some guild1, Some member1, Some ''annie'')]
       fresh_state"

definition member_ann :: member where
  "member_ann = member1\<lparr>member_nickname := Some ''ann''\<rparr>"

definition member_annie :: member where
  "member_annie = member1\<lparr>member_nickname := Some ''annie''\<rparr>"

section \<open>Nickname history\<close>

lemma nicknameHistory_saveConfig: "nicknameHistory (saveConfig env s) = nicknameHistory s"
  by (simp add: saveConfig_def console_def Let_def split: option.splits)

lemma stored_history_recordNickname:
  "stored_history (recordNickname env guild member nickname s) g u =
     (case (guild, member, nickname) of
        (Some G, Some M, Some n) \<Rightarrow>
          if guild_id G = g \<and> member_id M = u \<and> n \<noteq> [] \<and> n \<notin> set (stored_history s g u)
          then take 20 (n # stored_history s g u)
          else stored_history s g u
      | _ \<Rightarrow> stored_history s g u)"
  by (auto simp: recordNickname_def nicknameHistory_saveConfig Let_def stored_history_def
           split: option.splits)

lemma history_ok_step:
  assumes "history_ok h" "n \<noteq> []" "n \<notin> set h"
  shows "history_ok (take 20 (n # h))"
proof -
  have "distinct (n # h)" using assms by (simp add: history_ok_def)
  then have "distinct (take 20 (n # h))" by (rule distinct_take)
  moreover have "set (take 20 (n # h)) \<subseteq> set (n # h)" by (rule set_take_subset)
  then have "[] \<notin> set (take 20 (n # h))" using assms by (auto simp: history_ok_def)
  ultimately show ?thesis by (simp add: history_ok_def)
qed

lemma history_ok_recordNickname:
  assumes "\<forall>g u. history_ok (stored_history s g u)"
  shows "history_ok (stored_history (recordNickname env guild member nickname s) g u)"
proof -
  let ?h = "stored_history s g u"
  have ok: "history_ok ?h" using assms by simp
  show ?thesis
  proof (cases "\<exists>G M n. guild = Some G \<and> member = Some M \<and> nickname = Some n \<and> guild_id G = g
                  \<and> member_id M = u \<and> n \<noteq> [] \<and> n \<notin> set ?h")
    case True
    then obtain G M n where *: "guild = Some G" "member = Some M" "nickname = Some n" "guild_id G = g"
      "member_id M = u" "n \<noteq> []" "n \<notin> set ?h" by blast
    have "stored_history (recordNickname env guild member nickname s) g u = take 20 (n # ?h)"
      unfolding stored_history_recordNickname using * by simp
    then show ?thesis using history_ok_step [OF ok *(6) *(7)] by simp
  next
    case False
    then have "stored_history (recordNickname env guild member nickname s) g u = ?h"
      unfolding stored_history_recordNickname by (auto split: option.splits)
    then show ?thesis using ok by simp
  qed
qed

lemma history_ok_recordNicknames:
  "\<forall>g u. history_ok (stored_history s g u) \<Longrightarrow>
   history_ok (stored_history (recordNicknames env calls s) g u)"
proof (induction calls arbitrary: s)
  case Nil
  then show ?case by simp
next
  case (Cons c calls)
  obtain guild member nickname where c: "c = (guild, member, nickname)" by (cases c)
  have "\<forall>g u. history_ok (stored_history (recordNickname env guild member nickname s) g u)"
    using Cons.prems by (simp add: history_ok_recordNickname)
  then show ?case using Cons.IH c by simp
qed

text \<open>
  C1. Take any state whose stored lists are all well formed (at most 20 entries, no
  duplicate, no empty string), for instance the empty history of a process that has just
  started. After any sequence of calls of \<open>recordNickname\<close>, with any arguments, the list
  stored for every guild and user is again well formed. One call changes only the list
  of its own guild and user, and only when the nickname is non-empty and not yet in the
  list (compared as strings): the nickname is then put in front and the list cut to its
  first 20 entries; so the entries stand in the order of their recording, the latest first.
\<close>

theorem recordNickname_history_invariant:
  assumes "\<forall>g u. history_ok (stored_history s g u)"
  shows "history_ok (stored_history (recordNicknames env calls s) g u)
     \<and> stored_history (recordNickname env guild member nickname s) g u =
         (case (guild, member, nickname) of
            (Some G, Some M, Some n) \<Rightarrow>
              if guild_id G = g \<and> member_id M = u \<and> n \<noteq> [] \<and> n \<notin> set (stored_history s g u)
              then take 20 (n # stored_history s g u)
              else stored_history s g u
          | _ \<Rightarrow> stored_history s g u)"
  using assms history_ok_recordNicknames stored_history_recordNickname by blast

theorem recordNickname_history_invariant_witness:
  "(\<forall>g u. history_ok (stored_history fresh_state g u))
   \<and> history_ok (stored_history
        (recordNicknames quiet_env
           [(Some guild1, Some member1, Some ''ann''), (Some guild1, Some member1, Some ''annie''),
            (Some guild1, Some member1, Some ''ann''), (Some guild1, Some member1, Some [])]
           fresh_state) ''g1'' ''42'')
   \<and> stored_history
        (recordNicknames quiet_env
           [(Some guild1, Some member1, Some ''ann''), (Some guild1, Some member1, Some ''annie''),
            (Some guild1, Some member1, Some ''ann''), (Some guild1, Some member1, Some [])]
           fresh_state) ''g1'' ''42'' = [''annie'', ''ann'']
   \<and> stored_history (recordNickname quiet_env (Some guild1) (Some member1) (Some ''ann'') fresh_state)
        ''g1'' ''42'' = [''ann'']"
proof -
  have h: "\<forall>g u. history_ok (stored_history fresh_state g u)"
    by (simp add: history_ok_def stored_history_def fresh_state_def)
  have run: "stored_history
        (recordNicknames quiet_env
           [(Some guild1, Some member1, Some ''ann''), (Some guild1, Some member1, Some ''annie''),
            (Some guild1, Some member1, Some ''ann''), (Some guild1, Some member1, Some [])]
           fresh_state) ''g1'' ''42'' = [''annie'', ''ann'']"
    by (simp add: recordNickname_def saveConfig_def quiet_env_def guild1_def member1_def
          stored_history_def fresh_state_def Let_def)
  show ?thesis
    using h run recordNickname_history_invariant [OF h, of quiet_env
        "[(Some guild1, Some member1, Some ''ann''), (Some guild1, Some member1, Some ''annie''),
          (Some guild1, Some member1, Some ''ann''), (Some guild1, Some member1, Some [])]"
        "''g1''" "''42''" "Some guild1" "Some member1" "Some ''ann''"]
    by (simp add: guild1_def member1_def stored_history_def fresh_state_def)
qed

section \<open>Unconfigured guilds\<close>

text \<open>
  C10. In a guild with no entry in \<open>guildConfig\<close>, \<open>logEvent\<close> returns the state it was
  given: no channel is fetched and no message is sent (the list of effects is the same),
  and the configuration, the nickname history, the invite snapshots and the two files
  are untouched. This holds for every title, text, colour and identity, so for every event.
\<close>

theorem logEvent_unconfigured_guild:
  assumes "guildConfig s (guild_id guild) = None"
  shows "logEvent env guild title description color user s = s"
  using assms by (simp add: logEvent_def)

theorem logEvent_unconfigured_guild_witness:
  "guildConfig fresh_state (guild_id guild1) = None
   \<and> logEvent quiet_env guild1 title_joined ''text'' Green (Some (AsMember member1)) fresh_state
       = fresh_state"
proof -
  have h: "guildConfig fresh_state (guild_id guild1) = None"
    by (simp add: fresh_state_def)
  show ?thesis
    using h logEvent_unconfigured_guild [OF h] by simp
qed

section \<open>Audit attribution: the lookup\<close>

lemma audit_match_eq: "audit_match env kinds target a = spec_candidate env kinds target a"
  by (auto simp: audit_match_def spec_candidate_def)

lemma or_else_reason: "or_else (entry_reason a) ''No reason provided in Audit Log.'' = spec_reason a"
  by (cases "entry_reason a") (simp_all add: spec_reason_def)

lemma getAuditLogExecutor_returns:
  assumes "fetchAuditLogs env (guild_id guild) 5 (types_of type) = Inr entries"
  shows "getAuditLogExecutor env guild type targetId s =
     (Inr (case find (spec_candidate env (types_of type) targetId) entries of
             Some a \<Rightarrow> \<lparr>attr_executor = entry_executor a, attr_reason = Some (spec_reason a)\<rparr>
           | None \<Rightarrow> \<lparr>attr_executor = None, attr_reason = None\<rparr>),
      s\<lparr>effects := effects s @ [FetchAuditLogs (guild_id guild) 5 (types_of type)]\<rparr>)"
proof -
  have m: "audit_match env (types_of type) targetId = spec_candidate env (types_of type) targetId"
    by (rule ext) (rule audit_match_eq)
  show ?thesis
    using assms by (simp add: getAuditLogExecutor_def Let_def m or_else_reason split: option.splits)
qed



text \<open>
  C3. The claim is that a failing fetch is caught, a warning is logged, and null values
  are returned. The code does not do this: for every thrown error \<open>e\<close>, the function
  throws a \<open>ReferenceError\<close> from inside its \<open>catch\<close> block, no warning reaches the
  console (the only effect is the fetch itself), and a handler that awaits the lookup,
  such as the member-leave handler, ends with that error without handing any record to
  \<open>logEvent\<close>.
\<close>

theorem getAuditLogExecutor_throws_when_fetch_fails:
  "getAuditLogExecutor (env\<lparr>fetchAuditLogs := (\<lambda>g limit types. Inl e)\<rparr>) guild type targetId s =
     (Inl (ReferenceError ''types is not defined''),
      s\<lparr>effects := effects s @ [FetchAuditLogs (guild_id guild) 5 (types_of type)]\<rparr>)
   \<and> guildMemberRemove (env\<lparr>fetchAuditLogs := (\<lambda>g limit types. Inl e)\<rparr>) member s =
     (Some (ReferenceError ''types is not defined''),
      s\<lparr>effects := effects s @ [FetchAuditLogs (guild_id (member_guild member)) 5 [MemberKick]]\<rparr>)"
  by (simp add: getAuditLogExecutor_def guildMemberRemove_def Let_def)

section \<open>Invite attribution\<close>

lemma snapshot_snoc: "snapshot (xs @ [x]) = (snapshot xs)(invite_code x \<mapsto> invite_uses x)"
  by (simp add: snapshot_def)

lemma snapshot_distinct:
  assumes "distinct (map invite_code live)" "iv \<in> set live"
  shows "snapshot live (invite_code iv) = Some (invite_uses iv)"
  using assms
proof (induction live rule: rev_induct)
  case Nil
  then show ?case by simp
next
  case (snoc x xs)
  then show ?case by (auto simp: snapshot_snoc image_iff)
qed

lemma snapshot_absent: "c \<notin> invite_code ` set live \<Longrightarrow> snapshot live c = None"
  by (induction live rule: rev_induct) (auto simp: snapshot_snoc snapshot_def)

lemma used_invite_eq:
  "used_invite cached live = find (\<lambda>i. cached_uses cached (invite_code i) < invite_uses i) live"
  by (simp add: used_invite_def cached_uses_def)

lemma guildMemberAdd_tracked:
  assumes "invites s (guild_id (member_guild member)) = Some cached"
    and "invites_fetch env (guild_id (member_guild member)) = Inr live"
  shows "guildMemberAdd env member s =
     (None, logEvent env (member_guild member) title_joined
              (join_header member @ invite_text (used_invite cached live)) Green (Some (AsMember member))
              (s\<lparr>effects := effects s @ [FetchInvites (guild_id (member_guild member))],
                 invites := (invites s)(guild_id (member_guild member) \<mapsto> snapshot live)\<rparr>))"
  using assms by (simp add: guildMemberAdd_def Let_def)

lemma logEvent_effects_invites:
  "FetchInvites g \<in> set (effects (logEvent env guild title description color user s))
   \<Longrightarrow> FetchInvites g \<in> set (effects s)"
  by (auto simp: logEvent_def logEvent_catch_def saveConfig_def console_def Let_def
           split: option.splits sum.splits if_splits)

text \<open>
  C4. A member joins a guild. When the guild has a cached invite snapshot and the live
  fetch returns, the join is attributed to the first live invite, in the order of the
  fetched list, whose use count is strictly above its cached count, a code missing from
  the cache counting as 0: the record handed to \<open>logEvent\<close> names that invite's code, its
  creator and its use count. When no live invite is above its cached count the record
  says that the invite link could not be determined. Either way the cached snapshot is
  replaced by the snapshot of the whole live list (each live code with its live count,
  nothing else) before the record goes to \<open>logEvent\<close>. When the guild has no snapshot the
  record says that invite tracking is disabled, and the handler fetches no invites. The
  text of each record is written out in the statement.
\<close>

theorem guildMemberAdd_invite_attribution:
  "let g = member_guild member;
       created = show_int (getTime (user_createdAt (member_user member)) div 1000);
       header = ''**User:** '' @ user_tag (member_user member) @ '' ('' @ member_id member @ '')'' @ [CHR 0x0A]
                @ ''**Account Created:** <t:'' @ created @ '':f> (<t:'' @ created @ '':R>)'';
       title = [CHR 0xF0, CHR 0x9F, CHR 0x9F, CHR 0xA2] @ '' Member Joined'';
       refreshed = s\<lparr>effects := effects s @ [FetchInvites (guild_id g)],
                      invites := (invites s)(guild_id g \<mapsto> snapshot live)\<rparr>
   in (invites s (guild_id g) = Some cached \<and> invites_fetch env (guild_id g) = Inr live
       \<longrightarrow> (\<forall>i < length live.
              cached_uses cached (invite_code (live ! i)) < invite_uses (live ! i)
              \<and> (\<forall>j < i. \<not> cached_uses cached (invite_code (live ! j)) < invite_uses (live ! j))
              \<longrightarrow> guildMemberAdd env member s =
                    (None, logEvent env g title
                             (header @ [CHR 0x0A, CHR 0x0A] @ ''**Invite Used:** `'' @ invite_code (live ! i) @ ''`''
                              @ [CHR 0x0A] @ ''**Created By:** ''
                              @ (case invite_inviter (live ! i) of
                                   Some u \<Rightarrow> user_tag u | None \<Rightarrow> ''System/Unknown'')
                              @ [CHR 0x0A] @ ''**Uses:** '' @ show_nat (invite_uses (live ! i)))
                             Green (Some (AsMember member)) refreshed))
          \<and> ((\<forall>iv \<in> set live. \<not> cached_uses cached (invite_code iv) < invite_uses iv)
              \<longrightarrow> guildMemberAdd env member s =
                    (None, logEvent env g title
                             (header @ [CHR 0x0A, CHR 0x0A]
                              @ ''**Invite Used:** Could not determine invite link.'')
                             Green (Some (AsMember member)) refreshed))
          \<and> (\<forall>iv \<in> set live. distinct (map invite_code live)
              \<longrightarrow> snapshot live (invite_code iv) = Some (invite_uses iv))
          \<and> (\<forall>c. c \<notin> invite_code ` set live \<longrightarrow> snapshot live c = None))
      \<and> (invites s (guild_id g) = None
       \<longrightarrow> guildMemberAdd env member s =
             (None, logEvent env g title
                      (header @ [CHR 0x0A, CHR 0x0A, CHR 0xE2, CHR 0x9A, CHR 0xA0, CHR 0xEF, CHR 0xB8, CHR 0x8F]
                       @ '' Invite tracking disabled.'')
                      Green (Some (AsMember member)) s)
           \<and> (\<forall>x. FetchInvites x \<in> set (effects (snd (guildMemberAdd env member s)))
                  \<longrightarrow> FetchInvites x \<in> set (effects s)))"
  unfolding Let_def
proof (intro conjI impI allI ballI)
  fix i
  assume a: "invites s (guild_id (member_guild member)) = Some cached
      \<and> invites_fetch env (guild_id (member_guild member)) = Inr live"
    and i: "i < length live"
    and f: "cached_uses cached (invite_code (live ! i)) < invite_uses (live ! i)
            \<and> (\<forall>j < i. \<not> cached_uses cached (invite_code (live ! j)) < invite_uses (live ! j))"
  have "used_invite cached live = Some (live ! i)"
    unfolding used_invite_eq find_Some_iff using i f by blast
  then show "guildMemberAdd env member s =
       (None, logEvent env (member_guild member) ([CHR 0xF0, CHR 0x9F, CHR 0x9F, CHR 0xA2] @ '' Member Joined'')
                ((''**User:** '' @ user_tag (member_user member) @ '' ('' @ member_id member @ '')'' @ [CHR 0x0A]
                  @ ''**Account Created:** <t:'' @ show_int (getTime (user_createdAt (member_user member)) div 1000)
                  @ '':f> (<t:'' @ show_int (getTime (user_createdAt (member_user member)) div 1000) @ '':R>)'')
                 @ [CHR 0x0A, CHR 0x0A] @ ''**Invite Used:** `'' @ invite_code (live ! i) @ ''`''
                 @ [CHR 0x0A] @ ''**Created By:** ''
                 @ (case invite_inviter (live ! i) of Some u \<Rightarrow> user_tag u | None \<Rightarrow> ''System/Unknown'')
                 @ [CHR 0x0A] @ ''**Uses:** '' @ show_nat (invite_uses (live ! i)))
                Green (Some (AsMember member))
                (s\<lparr>effects := effects s @ [FetchInvites (guild_id (member_guild member))],
                   invites := (invites s)(guild_id (member_guild member) \<mapsto> snapshot live)\<rparr>))"
    using a by (simp add: guildMemberAdd_tracked invite_text_def join_header_def nl_def title_joined_def Let_def)
next
  assume a: "invites s (guild_id (member_guild member)) = Some cached
      \<and> invites_fetch env (guild_id (member_guild member)) = Inr live"
    and n: "\<forall>iv \<in> set live. \<not> cached_uses cached (invite_code iv) < invite_uses iv"
  have "used_invite cached live = None"
    unfolding used_invite_eq find_None_iff using n by blast
  then show "guildMemberAdd env member s =
       (None, logEvent env (member_guild member) ([CHR 0xF0, CHR 0x9F, CHR 0x9F, CHR 0xA2] @ '' Member Joined'')
                ((''**User:** '' @ user_tag (member_user member) @ '' ('' @ member_id member @ '')'' @ [CHR 0x0A]
                  @ ''**Account Created:** <t:'' @ show_int (getTime (user_createdAt (member_user member)) div 1000)
                  @ '':f> (<t:'' @ show_int (getTime (user_createdAt (member_user member)) div 1000) @ '':R>)'')
                 @ [CHR 0x0A, CHR 0x0A] @ ''**Invite Used:** Could not determine invite link.'')
                Green (Some (AsMember member))
                (s\<lparr>effects := effects s @ [FetchInvites (guild_id (member_guild member))],
                   invites := (invites s)(guild_id (member_guild member) \<mapsto> snapshot live)\<rparr>))"
    using a by (simp add: guildMemberAdd_tracked invite_text_def join_header_def nl_def title_joined_def Let_def)
next
  fix iv
  assume "iv \<in> set live" "distinct (map invite_code live)"
  then show "snapshot live (invite_code iv) = Some (invite_uses iv)"
    by (simp add: snapshot_distinct)
next
  fix c
  assume "c \<notin> invite_code ` set live"
  then show "snapshot live c = None" by (rule snapshot_absent)
next
  assume n: "invites s (guild_id (member_guild member)) = None"
  then show "guildMemberAdd env member s =
       (None, logEvent env (member_guild member) ([CHR 0xF0, CHR 0x9F, CHR 0x9F, CHR 0xA2] @ '' Member Joined'')
                ((''**User:** '' @ user_tag (member_user member) @ '' ('' @ member_id member @ '')'' @ [CHR 0x0A]
                  @ ''**Account Created:** <t:'' @ show_int (getTime (user_createdAt (member_user member)) div 1000)
                  @ '':f> (<t:'' @ show_int (getTime (user_createdAt (member_user member)) div 1000) @ '':R>)'')
                 @ [CHR 0x0A, CHR 0x0A, CHR 0xE2, CHR 0x9A, CHR 0xA0, CHR 0xEF, CHR 0xB8, CHR 0x8F]
                 @ '' Invite tracking disabled.'')
                Green (Some (AsMember member)) s)"
    by (simp add: guildMemberAdd_def join_header_def tracking_disabled_text_def nl_def title_joined_def Let_def)
  fix x
  assume "FetchInvites x \<in> set (effects (snd (guildMemberAdd env member s)))"
  then show "FetchInvites x \<in> set (effects s)"
    using n by (simp add: guildMemberAdd_def logEvent_effects_invites)
qed

text \<open>
  The two examples of the claim, in a guild with a log channel: against the cache A:5, B:2
  the live list A:5, B:3 sends a record that names invite \<open>B\<close>, and the live list
  A:5, B:2 sends one that says the invite could not be determined; without a snapshot the
  record says that tracking is disabled and no invites are fetched.
\<close>

theorem guildMemberAdd_invite_attribution_witness:
  "invites tracked_configured_state (guild_id (member_guild member1)) = Some [''A'' \<mapsto> 5, ''B'' \<mapsto> 2]
   \<and> invites_fetch (live_env [invite_A5, invite_B3]) (guild_id (member_guild member1))
       = Inr [invite_A5, invite_B3]
   \<and> guildMemberAdd (live_env [invite_A5, invite_B3]) member1 tracked_configured_state =
       (None, tracked_configured_state\<lparr>effects :=
              [FetchInvites ''g1'', FetchChannel ''g1'' ''c1'',
               ChannelSend ''c1''
                 \<lparr>embed_title = [CHR 0xF0, CHR 0x9F, CHR 0x9F, CHR 0xA2] @ '' Member Joined'',
                  embed_description =
                    ''**User:** ann#0042 (42)'' @ [CHR 0x0A] @ ''**Account Created:** <t:2:f> (<t:2:R>)''
                    @ [CHR 0x0A, CHR 0x0A] @ ''**Invite Used:** `B`'' @ [CHR 0x0A] @ ''**Created By:** mod#0001''
                 @ [CHR 0x0A] @ ''**Uses:** 3'',
                  embed_color = Green, embed_timestamp = 100000,
                  embed_footer = ''WatchDog | Guild ID: g1'', embed_author_name = ''ann#0042 (42)'',
                  embed_author_iconURL = ''https://cdn/42.png'',
                  embed_thumbnail = Some ''https://cdn/42.png''\<rparr>],
            invites := [''g1'' \<mapsto> [''A'' \<mapsto> 5, ''B'' \<mapsto> 3]]\<rparr>)
   \<and> guildMemberAdd (live_env [invite_A5, invite_B2]) member1 tracked_configured_state =
       (None, tracked_configured_state\<lparr>effects :=
              [FetchInvites ''g1'', FetchChannel ''g1'' ''c1'',
               ChannelSend ''c1''
                 \<lparr>embed_title = [CHR 0xF0, CHR 0x9F, CHR 0x9F, CHR 0xA2] @ '' Member Joined'',
                  embed_description =
                    ''**User:** ann#0042 (42)'' @ [CHR 0x0A] @ ''**Account Created:** <t:2:f> (<t:2:R>)''
                    @ [CHR 0x0A, CHR 0x0A] @ ''**Invite Used:** Could not determine invite link.'',
                  embed_color = Green, embed_timestamp = 100000,
                  embed_footer = ''WatchDog | Guild ID: g1'', embed_author_name = ''ann#0042 (42)'',
                  embed_author_iconURL = ''https://cdn/42.png'',
                  embed_thumbnail = Some ''https://cdn/42.png''\<rparr>],
            invites := [''g1'' \<mapsto> [''A'' \<mapsto> 5, ''B'' \<mapsto> 2]]\<rparr>)
   \<and> invites configured_state (guild_id (member_guild member1)) = None
   \<and> guildMemberAdd quiet_env member1 configured_state =
       (None, configured_state\<lparr>effects :=
              [FetchChannel ''g1'' ''c1'',
               ChannelSend ''c1''
                 \<lparr>embed_title = [CHR 0xF0, CHR 0x9F, CHR 0x9F, CHR 0xA2] @ '' Member Joined'',
                  embed_description =
                    ''**User:** ann#0042 (42)'' @ [CHR 0x0A] @ ''**Account Created:** <t:2:f> (<t:2:R>)''
                    @ [CHR 0x0A, CHR 0x0A, CHR 0xE2, CHR 0x9A, CHR 0xA0, CHR 0xEF, CHR 0xB8, CHR 0x8F]
                 @ '' Invite tracking disabled.'',
                  embed_color = Green, embed_timestamp = 100000,
                  embed_footer = ''WatchDog | Guild ID: g1'', embed_author_name = ''ann#0042 (42)'',
                  embed_author_iconURL = ''https://cdn/42.png'',
                  embed_thumbnail = Some ''https://cdn/42.png''\<rparr>]\<rparr>)"
proof -
  let ?cached = "[''A'' \<mapsto> 5::nat, ''B'' \<mapsto> 2]"
  have g: "guild_id (member_guild member1) = ''g1''" "member_guild member1 = guild1"
    "guild_id guild1 = ''g1''"
    by (simp_all add: member1_def guild1_def)
  have c: "invites tracked_configured_state (guild_id (member_guild member1)) = Some ?cached"
    by (simp add: tracked_configured_state_def g)
  have f3: "invites_fetch (live_env [invite_A5, invite_B3]) (guild_id (member_guild member1))
              = Inr [invite_A5, invite_B3]"
    and f2: "invites_fetch (live_env [invite_A5, invite_B2]) (guild_id (member_guild member1))
              = Inr [invite_A5, invite_B2]"
    by (simp_all add: live_env_def)
  have n: "invites configured_state (guild_id (member_guild member1)) = None"
    by (simp add: configured_state_def fresh_state_def)
  have first: "(1::nat) < length [invite_A5, invite_B3]"
    "cached_uses ?cached (invite_code ([invite_A5, invite_B3] ! 1))
       < invite_uses ([invite_A5, invite_B3] ! 1)
     \<and> (\<forall>j < (1::nat). \<not> cached_uses ?cached (invite_code ([invite_A5, invite_B3] ! j))
                        < invite_uses ([invite_A5, invite_B3] ! j))"
    by (simp_all add: cached_uses_def invite_A5_def invite_B3_def)
  have none: "\<forall>iv \<in> set [invite_A5, invite_B2].
                 \<not> cached_uses ?cached (invite_code iv) < invite_uses iv"
    by (simp add: cached_uses_def invite_A5_def invite_B2_def)
  have num: "show_int 2 = ''2''" "show_nat 3 = ''3''"
    by (simp_all add: show_int_def show_nat.simps)
  have ev: "guildConfig tracked_configured_state = [''g1'' \<mapsto> ''c1'']"
    "invites tracked_configured_state = [''g1'' \<mapsto> ?cached]"
    "effects tracked_configured_state = []"
    "guildConfig configured_state = [''g1'' \<mapsto> ''c1'']" "effects configured_state = []"
    "snapshot [invite_A5, invite_B3] = [''A'' \<mapsto> 5, ''B'' \<mapsto> 3]"
    "snapshot [invite_A5, invite_B2] = [''A'' \<mapsto> 5, ''B'' \<mapsto> 2]"
    by (simp_all add: tracked_configured_state_def configured_state_def fresh_state_def snapshot_def
          invite_A5_def invite_B3_def invite_B2_def)
  have who: "user_tag (member_user member1) = ''ann#0042''" "member_id member1 = ''42''"
    "getTime (user_createdAt (member_user member1)) = 2000"
    "user_id (member_user member1) = ''42''" "user_avatarURL (member_user member1) = ''https://cdn/42.png''"
    "invite_code invite_B3 = ''B''" "invite_uses invite_B3 = 3"
    "invite_inviter invite_B3 = Some moderator1" "user_tag moderator1 = ''mod#0001''"
    by (simp_all add: member1_def user1_def invite_B3_def moderator1_def)
  have world: "channels_fetch (live_env live) = (\<lambda>g c. Inr (Some log_channel1))"
    "channel_send (live_env live) = (\<lambda>c e. None)" "Date_now (live_env live) = 100000"
    "channels_fetch quiet_env = (\<lambda>g c. Inr (Some log_channel1))"
    "channel_send quiet_env = (\<lambda>c e. None)" "Date_now quiet_env = 100000"
    "channel_type log_channel1 = 0" "channel_id log_channel1 = ''c1''" for live
    by (simp_all add: live_env_def quiet_env_def log_channel1_def)
  note T3 = guildMemberAdd_invite_attribution
              [of member1 tracked_configured_state "[invite_A5, invite_B3]" ?cached
                  "live_env [invite_A5, invite_B3]", unfolded Let_def]
  from T3 [THEN conjunct1, rule_format, OF conjI [OF c f3], THEN conjunct1, rule_format, OF first]
  have B: "guildMemberAdd (live_env [invite_A5, invite_B3]) member1 tracked_configured_state =
       (None, tracked_configured_state\<lparr>effects :=
              [FetchInvites ''g1'', FetchChannel ''g1'' ''c1'',
               ChannelSend ''c1''
                 \<lparr>embed_title = [CHR 0xF0, CHR 0x9F, CHR 0x9F, CHR 0xA2] @ '' Member Joined'',
                  embed_description =
                    ''**User:** ann#0042 (42)'' @ [CHR 0x0A] @ ''**Account Created:** <t:2:f> (<t:2:R>)''
                    @ [CHR 0x0A, CHR 0x0A] @ ''**Invite Used:** `B`'' @ [CHR 0x0A] @ ''**Created By:** mod#0001''
                 @ [CHR 0x0A] @ ''**Uses:** 3'',
                  embed_color = Green, embed_timestamp = 100000,
                  embed_footer = ''WatchDog | Guild ID: g1'', embed_author_name = ''ann#0042 (42)'',
                  embed_author_iconURL = ''https://cdn/42.png'',
                  embed_thumbnail = Some ''https://cdn/42.png''\<rparr>],
            invites := [''g1'' \<mapsto> [''A'' \<mapsto> 5, ''B'' \<mapsto> 3]]\<rparr>)"
    by (simp add: g ev who num world logEvent_def build_embed_def Let_def)
  note T2 = guildMemberAdd_invite_attribution
              [of member1 tracked_configured_state "[invite_A5, invite_B2]" ?cached
                  "live_env [invite_A5, invite_B2]", unfolded Let_def]
  from T2 [THEN conjunct1, rule_format, OF conjI [OF c f2], THEN conjunct2, THEN conjunct1, THEN mp, OF none]
  have I: "guildMemberAdd (live_env [invite_A5, invite_B2]) member1 tracked_configured_state =
       (None, tracked_configured_state\<lparr>effects :=
              [FetchInvites ''g1'', FetchChannel ''g1'' ''c1'',
               ChannelSend ''c1''
                 \<lparr>embed_title = [CHR 0xF0, CHR 0x9F, CHR 0x9F, CHR 0xA2] @ '' Member Joined'',
                  embed_description =
                    ''**User:** ann#0042 (42)'' @ [CHR 0x0A] @ ''**Account Created:** <t:2:f> (<t:2:R>)''
                    @ [CHR 0x0A, CHR 0x0A] @ ''**Invite Used:** Could not determine invite link.'',
                  embed_color = Green, embed_timestamp = 100000,
                  embed_footer = ''WatchDog | Guild ID: g1'', embed_author_name = ''ann#0042 (42)'',
                  embed_author_iconURL = ''https://cdn/42.png'',
                  embed_thumbnail = Some ''https://cdn/42.png''\<rparr>],
            invites := [''g1'' \<mapsto> [''A'' \<mapsto> 5, ''B'' \<mapsto> 2]]\<rparr>)"
    by (simp add: g ev who num world logEvent_def build_embed_def Let_def)
  note T0 = guildMemberAdd_invite_attribution
              [of member1 configured_state "[]" ?cached quiet_env, unfolded Let_def]
  from T0 [THEN conjunct2, rule_format, OF n, THEN conjunct1]
  have D: "guildMemberAdd quiet_env member1 configured_state =
       (None, configured_state\<lparr>effects :=
              [FetchChannel ''g1'' ''c1'',
               ChannelSend ''c1''
                 \<lparr>embed_title = [CHR 0xF0, CHR 0x9F, CHR 0x9F, CHR 0xA2] @ '' Member Joined'',
                  embed_description =
                    ''**User:** ann#0042 (42)'' @ [CHR 0x0A] @ ''**Account Created:** <t:2:f> (<t:2:R>)''
                    @ [CHR 0x0A, CHR 0x0A, CHR 0xE2, CHR 0x9A, CHR 0xA0, CHR 0xEF, CHR 0xB8, CHR 0x8F]
                 @ '' Invite tracking disabled.'',
                  embed_color = Green, embed_timestamp = 100000,
                  embed_footer = ''WatchDog | Guild ID: g1'', embed_author_name = ''ann#0042 (42)'',
                  embed_author_iconURL = ''https://cdn/42.png'',
                  embed_thumbnail = Some ''https://cdn/42.png''\<rparr>]\<rparr>)"
    by (simp add: g ev who num world logEvent_def build_embed_def Let_def)
  show ?thesis using c f3 B I n D by simp
qed

section \<open>Member leave\<close>

lemma spec_reason_nonempty: "spec_reason a \<noteq> []"
  by (simp add: spec_reason_def split: option.splits)

lemma or_else_spec_reason: "or_else (Some (spec_reason a)) d = spec_reason a"
  by (simp add: spec_reason_nonempty)

lemma first_candidate_found:
  assumes "i < length entries" "P (entries ! i)" "\<forall>j < i. \<not> P (entries ! j)"
  shows "find P entries = Some (entries ! i)"
  unfolding find_Some_iff using assms by blast

lemma no_candidate_found:
  assumes "\<forall>a \<in> set entries. \<not> P a"
  shows "find P entries = None"
  unfolding find_None_iff using assms by blast

text \<open>
  When the fetch of the audit log returns: if the first fetched entry that is a kick,
  targets the member's id and is less than 5 s old names its executor, the record handed
  to \<open>logEvent\<close> has the title of a kick and the colour orange, and its text ends with
  the moderator (tag and id) and the reason of that entry; if no fetched entry qualifies,
  the record is the plain leave, in red.
\<close>

lemma guildMemberRemove_when_fetch_returns:
  assumes "fetchAuditLogs env (guild_id (member_guild member)) 5 [MemberKick] = Inr entries"
  shows "(\<forall>i < length entries.
            spec_candidate env [MemberKick] (Some (member_id member)) (entries ! i)
            \<and> (\<forall>j < i. \<not> spec_candidate env [MemberKick] (Some (member_id member)) (entries ! j))
            \<and> entry_executor (entries ! i) = Some moderator
            \<longrightarrow> guildMemberRemove env member s =
                  (None, logEvent env (member_guild member) title_kicked
                           (leave_header member @ nl @ ''**Responsible Mod:** '' @ user_tag moderator
                            @ '' ('' @ user_id moderator @ '')'' @ nl
                            @ ''**Reason:** '' @ spec_reason (entries ! i))
                           Orange (Some (AsMember member))
                           (s\<lparr>effects := effects s @ [FetchAuditLogs (guild_id (member_guild member)) 5 [MemberKick]]\<rparr>)))
     \<and> ((\<forall>a \<in> set entries. \<not> spec_candidate env [MemberKick] (Some (member_id member)) a)
            \<longrightarrow> guildMemberRemove env member s =
                  (None, logEvent env (member_guild member) title_left (leave_header member)
                           Red (Some (AsMember member))
                           (s\<lparr>effects := effects s @ [FetchAuditLogs (guild_id (member_guild member)) 5 [MemberKick]]\<rparr>)))
     \<and> title_kicked = [CHR 0xF0, CHR 0x9F, CHR 0x94, CHR 0xA8] @ '' Member Kicked''
     \<and> title_left = [CHR 0xF0, CHR 0x9F, CHR 0x94, CHR 0xB4] @ '' Member Left/Quit''"
proof -
  have r: "getAuditLogExecutor env (member_guild member) (Single MemberKick) (Some (member_id member)) s =
     (Inr (case find (spec_candidate env [MemberKick] (Some (member_id member))) entries of
             Some a \<Rightarrow> \<lparr>attr_executor = entry_executor a, attr_reason = Some (spec_reason a)\<rparr>
           | None \<Rightarrow> \<lparr>attr_executor = None, attr_reason = None\<rparr>),
      s\<lparr>effects := effects s @ [FetchAuditLogs (guild_id (member_guild member)) 5 [MemberKick]]\<rparr>)"
    using getAuditLogExecutor_returns [of env "member_guild member" "Single MemberKick" entries] assms
    by simp
  show ?thesis
  proof (intro conjI allI impI)
    fix i
    assume i: "i < length entries"
      and c: "spec_candidate env [MemberKick] (Some (member_id member)) (entries ! i)
            \<and> (\<forall>j < i. \<not> spec_candidate env [MemberKick] (Some (member_id member)) (entries ! j))
            \<and> entry_executor (entries ! i) = Some moderator"
    have "find (spec_candidate env [MemberKick] (Some (member_id member))) entries = Some (entries ! i)"
      using first_candidate_found i c by blast
    then show "guildMemberRemove env member s =
                  (None, logEvent env (member_guild member) title_kicked
                           (leave_header member @ nl @ ''**Responsible Mod:** '' @ user_tag moderator
                            @ '' ('' @ user_id moderator @ '')'' @ nl
                            @ ''**Reason:** '' @ spec_reason (entries ! i))
                           Orange (Some (AsMember member))
                           (s\<lparr>effects := effects s @ [FetchAuditLogs (guild_id (member_guild member)) 5 [MemberKick]]\<rparr>))"
      using c by (simp add: guildMemberRemove_def r tag_and_id_def spec_reason_nonempty)
  next
    assume "\<forall>a \<in> set entries. \<not> spec_candidate env [MemberKick] (Some (member_id member)) a"
    then have "find (spec_candidate env [MemberKick] (Some (member_id member))) entries = None"
      by (rule no_candidate_found)
    then show "guildMemberRemove env member s =
                  (None, logEvent env (member_guild member) title_left (leave_header member)
                           Red (Some (AsMember member))
                           (s\<lparr>effects := effects s @ [FetchAuditLogs (guild_id (member_guild member)) 5 [MemberKick]]\<rparr>))"
      by (simp add: guildMemberRemove_def r)
  qed (simp_all add: title_kicked_def title_left_def)
qed

text \<open>
  C6. The claim is that every member-leave event gives a record: a kick when the lookup
  finds a recent kick entry for the member, a plain leave otherwise. The code does not do
  this when the fetch of the audit log throws, through the defect of the lookup's
  \<open>catch\<close> block. Here the bot may not read the audit log of guild \<open>g1\<close>, which has a log
  channel, and member \<open>42\<close> leaves: no kick entry is found, the handler ends with a
  \<open>ReferenceError\<close> after the fetch and hands nothing to \<open>logEvent\<close>, where the plain
  leave that the claim asks for would have been sent to the channel.
\<close>

theorem guildMemberRemove_rejects_when_fetch_fails:
  "guildConfig configured_state (guild_id (member_guild member1)) = Some ''c1''
   \<and> fetchAuditLogs no_audit_access_env (guild_id (member_guild member1)) 5 [MemberKick]
       = Inl (DiscordAPIError 50013 ''Missing Permissions'')
   \<and> guildMemberRemove no_audit_access_env member1 configured_state =
       (Some (ReferenceError ''types is not defined''),
        configured_state\<lparr>effects := [FetchAuditLogs ''g1'' 5 [MemberKick]]\<rparr>)
   \<and> logEvent no_audit_access_env guild1
         ([CHR 0xF0, CHR 0x9F, CHR 0x94, CHR 0xB4] @ '' Member Left/Quit'')
         (''**User:** ann#0042 (42)'' @ [CHR 0x0A] @ ''**Joined:** Time unknown'' @ [CHR 0x0A])
         Red (Some (AsMember member1))
         (configured_state\<lparr>effects := [FetchAuditLogs ''g1'' 5 [MemberKick]]\<rparr>) =
       configured_state\<lparr>effects :=
         [FetchAuditLogs ''g1'' 5 [MemberKick], FetchChannel ''g1'' ''c1'',
          ChannelSend ''c1''
            \<lparr>embed_title = [CHR 0xF0, CHR 0x9F, CHR 0x94, CHR 0xB4] @ '' Member Left/Quit'',
             embed_description =
               ''**User:** ann#0042 (42)'' @ [CHR 0x0A] @ ''**Joined:** Time unknown'' @ [CHR 0x0A],
             embed_color = Red, embed_timestamp = 100000,
             embed_footer = ''WatchDog | Guild ID: g1'', embed_author_name = ''ann#0042 (42)'',
             embed_author_iconURL = ''https://cdn/42.png'',
             embed_thumbnail = Some ''https://cdn/42.png''\<rparr>]\<rparr>"
  by (simp add: guildMemberRemove_def getAuditLogExecutor_def no_audit_access_env_def quiet_env_def
        configured_state_def fresh_state_def member1_def guild1_def user1_def log_channel1_def
        logEvent_def build_embed_def Let_def)

section \<open>Message deletion\<close>

lemma messageDelete_guarded:
  assumes "message_guild message = Some guild" "by_other_bot env message"
  shows "messageDelete env message s = (None, s)"
  using assms by (simp add: messageDelete_def by_other_bot_def)

lemma messageDelete_lookup:
  assumes "message_guild message = Some guild" "\<not> by_other_bot env message"
    and "fetchAuditLogs env (guild_id guild) 5 [MessageBulkDelete] = Inr entries"
  shows "messageDelete env message s =
     (case find (spec_candidate env [MessageBulkDelete] (Some (message_channelId message))) entries of
        Some a \<Rightarrow>
          (case entry_executor a of
             Some bulkExecutor \<Rightarrow>
               (None, s\<lparr>effects := effects s @ [FetchAuditLogs (guild_id guild) 5 [MessageBulkDelete]]\<rparr>)
           | None \<Rightarrow>
               (None, logEvent env guild title_message_deleted (deleted_text message) Red
                        (map_option AsUser (message_author message))
                        (s\<lparr>effects := effects s @ [FetchAuditLogs (guild_id guild) 5 [MessageBulkDelete]]\<rparr>)))
      | None \<Rightarrow>
          (None, logEvent env guild title_message_deleted (deleted_text message) Red
                   (map_option AsUser (message_author message))
                   (s\<lparr>effects := effects s @ [FetchAuditLogs (guild_id guild) 5 [MessageBulkDelete]]\<rparr>)))"
proof -
  have r: "getAuditLogExecutor env guild (Single MessageBulkDelete) (Some (message_channelId message)) s =
     (Inr (case find (spec_candidate env [MessageBulkDelete] (Some (message_channelId message))) entries of
             Some a \<Rightarrow> \<lparr>attr_executor = entry_executor a, attr_reason = Some (spec_reason a)\<rparr>
           | None \<Rightarrow> \<lparr>attr_executor = None, attr_reason = None\<rparr>),
      s\<lparr>effects := effects s @ [FetchAuditLogs (guild_id guild) 5 [MessageBulkDelete]]\<rparr>)"
    using getAuditLogExecutor_returns [of env guild "Single MessageBulkDelete" entries] assms(3)
    by simp
  have nb: "\<not> (case message_author message of
                 Some a \<Rightarrow> user_bot a \<and> user_id a \<noteq> client_user_id env
               | None \<Rightarrow> False)"
    using assms(2) by (simp add: by_other_bot_def)
  show ?thesis
    using assms(1) nb by (simp add: messageDelete_def r split: option.splits)
qed

text \<open>
  C5, the claim as stated, fails. In guild \<open>g1\<close>, which has a log channel, a message
  written by another bot is deleted; the audit log holds no entry at all, so no
  bulk-delete entry is found, and the claim asks for one message-deleted record. The
  handler returns at its guard on the author: it leaves the state as it was, with no
  lookup, no fetch of the channel and nothing sent. This is not the state that the
  lookup followed by the record would leave, since \<open>logEvent\<close> would have sent it.
\<close>

theorem messageDelete_other_bot_counterexample:
  "message_guild bot_message = Some guild1
   \<and> fetchAuditLogs quiet_env (guild_id guild1) 5 [MessageBulkDelete] = Inr []
   \<and> messageDelete quiet_env bot_message configured_state = (None, configured_state)
   \<and> effects (snd (messageDelete quiet_env bot_message configured_state)) = []
   \<and> messageDelete quiet_env bot_message configured_state \<noteq>
       (None, logEvent quiet_env guild1 title_message_deleted (deleted_text bot_message) Red
                (Some (AsUser other_bot))
                (configured_state\<lparr>effects := [FetchAuditLogs ''g1'' 5 [MessageBulkDelete]]\<rparr>))
   \<and> effects (logEvent quiet_env guild1 title_message_deleted (deleted_text bot_message) Red
                (Some (AsUser other_bot)) configured_state) =
       [FetchChannel ''g1'' ''c1'',
        ChannelSend ''c1'' (build_embed quiet_env guild1 title_message_deleted (deleted_text bot_message)
                             Red (Some (AsUser other_bot)))]"
  by (simp add: messageDelete_def bot_message_def other_bot_def quiet_env_def configured_state_def
        fresh_state_def guild1_def logEvent_def log_channel1_def Let_def)

text \<open>
  C5, amended. A message is deleted in a guild. When its author is a bot other than this
  bot, the handler does nothing: no lookup and no record. Otherwise (author unknown, not
  a bot, or this bot), when the fetch of the audit log returns: if the first fetched
  entry that is a bulk delete, targets the message's channel and is less than 5 s old
  names its executor, the handler stops after the lookup and hands nothing to
  \<open>logEvent\<close>; if no fetched entry qualifies, it hands exactly one record to \<open>logEvent\<close>,
  titled as a deleted message, in red.
\<close>

theorem messageDelete_bulk_suppression:
  assumes "message_guild message = Some guild"
  shows "(by_other_bot env message \<longrightarrow> messageDelete env message s = (None, s))
     \<and> (\<not> by_other_bot env message
          \<and> fetchAuditLogs env (guild_id guild) 5 [MessageBulkDelete] = Inr entries
        \<longrightarrow> (\<forall>i < length entries.
                spec_candidate env [MessageBulkDelete] (Some (message_channelId message)) (entries ! i)
                \<and> (\<forall>j < i. \<not> spec_candidate env [MessageBulkDelete] (Some (message_channelId message))
                                (entries ! j))
                \<and> entry_executor (entries ! i) = Some bulkExecutor
                \<longrightarrow> messageDelete env message s =
                      (None, s\<lparr>effects := effects s @ [FetchAuditLogs (guild_id guild) 5 [MessageBulkDelete]]\<rparr>))
            \<and> ((\<forall>a \<in> set entries.
                   \<not> spec_candidate env [MessageBulkDelete] (Some (message_channelId message)) a)
                \<longrightarrow> messageDelete env message s =
                      (None, logEvent env guild title_message_deleted (deleted_text message) Red
                               (map_option AsUser (message_author message))
                               (s\<lparr>effects := effects s @ [FetchAuditLogs (guild_id guild) 5 [MessageBulkDelete]]\<rparr>))))
     \<and> title_message_deleted =
         [CHR 0xF0, CHR 0x9F, CHR 0x97, CHR 0x91, CHR 0xEF, CHR 0xB8, CHR 0x8F] @ '' Message Deleted''"
proof (intro conjI allI impI)
  assume "by_other_bot env message"
  then show "messageDelete env message s = (None, s)"
    using assms by (simp add: messageDelete_guarded)
next
  fix i
  assume a: "\<not> by_other_bot env message
          \<and> fetchAuditLogs env (guild_id guild) 5 [MessageBulkDelete] = Inr entries"
    and i: "i < length entries"
    and c: "spec_candidate env [MessageBulkDelete] (Some (message_channelId message)) (entries ! i)
                \<and> (\<forall>j < i. \<not> spec_candidate env [MessageBulkDelete] (Some (message_channelId message))
                                (entries ! j))
                \<and> entry_executor (entries ! i) = Some bulkExecutor"
  have "find (spec_candidate env [MessageBulkDelete] (Some (message_channelId message))) entries
          = Some (entries ! i)"
    using first_candidate_found i c by blast
  then show "messageDelete env message s =
       (None, s\<lparr>effects := effects s @ [FetchAuditLogs (guild_id guild) 5 [MessageBulkDelete]]\<rparr>)"
    using assms a c by (simp add: messageDelete_lookup)
next
  assume a: "\<not> by_other_bot env message
          \<and> fetchAuditLogs env (guild_id guild) 5 [MessageBulkDelete] = Inr entries"
    and "\<forall>a \<in> set entries.
           \<not> spec_candidate env [MessageBulkDelete] (Some (message_channelId message)) a"
  then have "find (spec_candidate env [MessageBulkDelete] (Some (message_channelId message))) entries = None"
    using no_candidate_found by blast
  then show "messageDelete env message s =
       (None, logEvent env guild title_message_deleted (deleted_text message) Red
                (map_option AsUser (message_author message))
                (s\<lparr>effects := effects s @ [FetchAuditLogs (guild_id guild) 5 [MessageBulkDelete]]\<rparr>))"
    using assms a by (simp add: messageDelete_lookup)
qed (simp add: title_message_deleted_def)

theorem messageDelete_bulk_suppression_witness:
  "message_guild user_message = Some guild1
   \<and> \<not> by_other_bot purge_env user_message
   \<and> fetchAuditLogs purge_env (guild_id guild1) 5 [MessageBulkDelete] = Inr purge_entries
   \<and> messageDelete purge_env user_message configured_state =
       (None, configured_state\<lparr>effects := [FetchAuditLogs ''g1'' 5 [MessageBulkDelete]]\<rparr>)
   \<and> fetchAuditLogs quiet_env (guild_id guild1) 5 [MessageBulkDelete] = Inr []
   \<and> messageDelete quiet_env user_message configured_state =
       (None, logEvent quiet_env guild1 title_message_deleted (deleted_text user_message) Red
                (Some (AsUser user1))
                (configured_state\<lparr>effects := [FetchAuditLogs ''g1'' 5 [MessageBulkDelete]]\<rparr>))
   \<and> by_other_bot quiet_env bot_message
   \<and> messageDelete quiet_env bot_message configured_state = (None, configured_state)"
proof -
  have m: "message_guild user_message = Some guild1" "message_channelId user_message = ''c7''"
    "message_author user_message = Some user1" "guild_id guild1 = ''g1''"
    "effects configured_state = []" "message_guild bot_message = Some guild1"
    by (simp_all add: user_message_def guild1_def configured_state_def fresh_state_def bot_message_def)
  have nb: "\<not> by_other_bot purge_env user_message" "\<not> by_other_bot quiet_env user_message"
    by (simp_all add: by_other_bot_def user_message_def user1_def)
  have ob: "by_other_bot quiet_env bot_message"
    by (simp add: by_other_bot_def bot_message_def other_bot_def quiet_env_def)
  have p: "fetchAuditLogs purge_env (guild_id guild1) 5 [MessageBulkDelete] = Inr purge_entries"
    by (simp add: purge_env_def)
  have q: "fetchAuditLogs quiet_env (guild_id guild1) 5 [MessageBulkDelete] = Inr []"
    by (simp add: quiet_env_def)
  have len: "(0::nat) < length purge_entries" by (simp add: purge_entries_def)
  have c: "spec_candidate purge_env [MessageBulkDelete] (Some (message_channelId user_message)) (purge_entries ! 0)
      \<and> (\<forall>j < 0. \<not> spec_candidate purge_env [MessageBulkDelete] (Some (message_channelId user_message))
                      (purge_entries ! j))
      \<and> entry_executor (purge_entries ! 0) = Some moderator1"
    by (simp add: spec_candidate_def purge_entries_def purge_env_def quiet_env_def m)
  note T = messageDelete_bulk_suppression [OF m(1), of purge_env configured_state purge_entries moderator1]
  from T [THEN conjunct2, THEN conjunct1, rule_format, OF conjI [OF nb(1) p], THEN conjunct1, rule_format, OF len c]
  have S: "messageDelete purge_env user_message configured_state =
       (None, configured_state\<lparr>effects := [FetchAuditLogs ''g1'' 5 [MessageBulkDelete]]\<rparr>)"
    by (simp add: m)
  note U = messageDelete_bulk_suppression [OF m(1), of quiet_env configured_state "[]" moderator1]
  from U nb(2) q
  have E: "messageDelete quiet_env user_message configured_state =
       (None, logEvent quiet_env guild1 title_message_deleted (deleted_text user_message) Red
                (Some (AsUser user1))
                (configured_state\<lparr>effects := [FetchAuditLogs ''g1'' 5 [MessageBulkDelete]]\<rparr>))"
    by (simp add: m)
  from messageDelete_bulk_suppression [OF m(6), of quiet_env configured_state "[]" moderator1] ob
  have G: "messageDelete quiet_env bot_message configured_state = (None, configured_state)"
    by simp
  show ?thesis using m(1) nb(1) p S q E ob G by simp
qed

section \<open>Updates without a tracked change\<close>

lemma alist_length_dom:
  "length (DAList.impl_of al) = card (dom (DAList.lookup al))"
proof -
  have "length (DAList.impl_of al) = length (map fst (DAList.impl_of al))" by simp
  also have "\<dots> = card (set (map fst (DAList.impl_of al)))"
    by (rule distinct_card [symmetric]) simp
  also have "\<dots> = card (dom (DAList.lookup al))"
    by (simp add: DAList.lookup.rep_eq dom_map_of_conv_image_fst)
  finally show ?thesis .
qed

lemma same_overwrites:
  assumes "DAList.lookup oldPerms = DAList.lookup newPerms"
  shows "length (DAList.impl_of oldPerms) = length (DAList.impl_of newPerms)"
    and "DAList.impl_of
     (DAList.filter
        (\<lambda>(id, newOverride).
           case DAList.lookup oldPerms id of
             None \<Rightarrow> True
           | Some oldOverride \<Rightarrow>
               ow_allow oldOverride \<noteq> ow_allow newOverride \<or> ow_deny oldOverride \<noteq> ow_deny newOverride)
        newPerms) = []"
proof -
  show "length (DAList.impl_of oldPerms) = length (DAList.impl_of newPerms)"
    by (simp add: alist_length_dom assms)
  have "DAList.lookup oldPerms k = Some v" if "(k, v) \<in> set (DAList.impl_of newPerms)" for k v
  proof -
    have "DAList.lookup newPerms k = Some v"
      unfolding DAList.lookup.rep_eq using that by (simp add: map_of_is_SomeI)
    then show ?thesis by (simp add: assms)
  qed
  then show "DAList.impl_of
     (DAList.filter
        (\<lambda>(id, newOverride).
           case DAList.lookup oldPerms id of
             None \<Rightarrow> True
           | Some oldOverride \<Rightarrow>
               ow_allow oldOverride \<noteq> ow_allow newOverride \<or> ow_deny oldOverride \<noteq> ow_deny newOverride)
        newPerms) = []"
    by (auto simp: DAList.filter.rep_eq filter_empty_conv)
qed

lemma channel_changes_none:
  assumes "channel_name oldChannel = channel_name newChannel"
    and "channel_topic oldChannel = channel_topic newChannel"
    and "channel_rateLimitPerUser oldChannel = channel_rateLimitPerUser newChannel"
    and "DAList.lookup (channel_permissionOverwrites oldChannel)
           = DAList.lookup (channel_permissionOverwrites newChannel)"
  shows "channel_changes oldChannel newChannel = []"
  using assms same_overwrites [OF assms(4)] by (simp add: channel_changes_def Let_def)

lemma role_changes_none:
  assumes "role_name oldRole = role_name newRole" "role_color oldRole = role_color newRole"
    and "role_permissions oldRole = role_permissions newRole"
  shows "role_changes oldRole newRole = []"
  using assms by (simp add: role_changes_def)

lemma guild_changes_none:
  assumes "guild_name oldGuild = guild_name newGuild" "guild_iconURL oldGuild = guild_iconURL newGuild"
    and "guild_verificationLevel oldGuild = guild_verificationLevel newGuild"
    and "guild_systemChannelId oldGuild = guild_systemChannelId newGuild"
  shows "guild_changes oldGuild newGuild = []"
  using assms by (simp add: guild_changes_def)

text \<open>
  C7. When the two snapshots of a channel agree on name, topic, rate limit and permission
  overwrites (the same overwrite under every id), the channel-update handler returns the
  state it was given; so do the
  role-update handler when the two roles agree on name, colour and permissions, and the
  guild-update handler when the two guilds agree on name, icon, verification level and
  system channel. The state holds the list of effects, so nothing was looked up in the
  audit log and nothing was handed to \<open>logEvent\<close>; and the handler did not throw.
\<close>

theorem update_without_tracked_change_is_silent:
  "(channel_name oldChannel = channel_name newChannel
      \<and> channel_topic oldChannel = channel_topic newChannel
      \<and> channel_rateLimitPerUser oldChannel = channel_rateLimitPerUser newChannel
      \<and> DAList.lookup (channel_permissionOverwrites oldChannel)
          = DAList.lookup (channel_permissionOverwrites newChannel)
    \<longrightarrow> channelUpdate env oldChannel newChannel s = (None, s))
   \<and> (role_name oldRole = role_name newRole
      \<and> role_color oldRole = role_color newRole
      \<and> role_permissions oldRole = role_permissions newRole
    \<longrightarrow> roleUpdate env oldRole newRole s = (None, s))
   \<and> (guild_name oldGuild = guild_name newGuild
      \<and> guild_iconURL oldGuild = guild_iconURL newGuild
      \<and> guild_verificationLevel oldGuild = guild_verificationLevel newGuild
      \<and> guild_systemChannelId oldGuild = guild_systemChannelId newGuild
    \<longrightarrow> guildUpdate env oldGuild newGuild s = (None, s))"
proof (intro conjI impI)
  assume "channel_name oldChannel = channel_name newChannel
      \<and> channel_topic oldChannel = channel_topic newChannel
      \<and> channel_rateLimitPerUser oldChannel = channel_rateLimitPerUser newChannel
      \<and> DAList.lookup (channel_permissionOverwrites oldChannel)
          = DAList.lookup (channel_permissionOverwrites newChannel)"
  then have "channel_changes oldChannel newChannel = []"
    by (simp add: channel_changes_none)
  then show "channelUpdate env oldChannel newChannel s = (None, s)"
    by (simp add: channelUpdate_def split: option.splits)
next
  assume "role_name oldRole = role_name newRole
      \<and> role_color oldRole = role_color newRole
      \<and> role_permissions oldRole = role_permissions newRole"
  then have "role_changes oldRole newRole = []"
    by (simp add: role_changes_none)
  then show "roleUpdate env oldRole newRole s = (None, s)"
    by (simp add: roleUpdate_def)
next
  assume "guild_name oldGuild = guild_name newGuild
      \<and> guild_iconURL oldGuild = guild_iconURL newGuild
      \<and> guild_verificationLevel oldGuild = guild_verificationLevel newGuild
      \<and> guild_systemChannelId oldGuild = guild_systemChannelId newGuild"
  then have "guild_changes oldGuild newGuild = []"
    by (simp add: guild_changes_none)
  then show "guildUpdate env oldGuild newGuild s = (None, s)"
    by (simp add: guildUpdate_def)
qed

text \<open>
  The instances: a channel of which only the printed mention changed, a role of which
  only the guild's name changed, and a guild of which only the printed system channel
  changed. For contrast, a renamed channel does not leave the state as it was.
\<close>

theorem update_without_tracked_change_is_silent_witness:
  "channel_name channel2 = channel_name (channel2\<lparr>channel_mention := ''<#general>''\<rparr>)
   \<and> DAList.lookup (channel_permissionOverwrites channel2)
       = DAList.lookup (channel_permissionOverwrites (channel2\<lparr>channel_mention := ''<#general>''\<rparr>))
   \<and> channelUpdate quiet_env channel2 (channel2\<lparr>channel_mention := ''<#general>''\<rparr>) configured_state
       = (None, configured_state)
   \<and> role_name role1 = role_name (role1\<lparr>role_guild := guild1\<lparr>guild_name := ''Renamed''\<rparr>\<rparr>)
   \<and> roleUpdate quiet_env role1 (role1\<lparr>role_guild := guild1\<lparr>guild_name := ''Renamed''\<rparr>\<rparr>) configured_state
       = (None, configured_state)
   \<and> guild_name guild1 = guild_name (guild1\<lparr>guild_systemChannel := Some ''<#lobby>''\<rparr>)
   \<and> guildUpdate quiet_env guild1 (guild1\<lparr>guild_systemChannel := Some ''<#lobby>''\<rparr>) configured_state
       = (None, configured_state)
   \<and> channelUpdate quiet_env channel2 (channel2\<lparr>channel_name := ''lounge''\<rparr>) configured_state
       \<noteq> (None, configured_state)"
proof -
  note T = update_without_tracked_change_is_silent
             [of channel2 "channel2\<lparr>channel_mention := ''<#general>''\<rparr>"
                 quiet_env configured_state
                 role1 "role1\<lparr>role_guild := guild1\<lparr>guild_name := ''Renamed''\<rparr>\<rparr>"
                 guild1 "guild1\<lparr>guild_systemChannel := Some ''<#lobby>''\<rparr>"]
  have renamed: "channel_changes channel2 (channel2\<lparr>channel_name := ''lounge''\<rparr>) \<noteq> []"
    by (simp add: channel_changes_def channel2_def Let_def)
  have guarded: "channel_guild channel2 = Some guild1" "\<not> channel_partial channel2"
    by (simp_all add: channel2_def)
  have changed: "channelUpdate quiet_env channel2 (channel2\<lparr>channel_name := ''lounge''\<rparr>) configured_state
       \<noteq> (None, configured_state)"
    using renamed guarded
    by (simp add: channelUpdate_def Let_def getAuditLogExecutor_def quiet_env_def logEvent_def
          configured_state_def fresh_state_def guild1_def log_channel1_def)
  show ?thesis using T changed by simp
qed

section \<open>Eviction of an unreachable destination\<close>

lemma guildConfig_console: "guildConfig (console l s) = guildConfig s"
  by (simp add: console_def)

lemma guildConfig_saveConfig: "guildConfig (saveConfig env s) = guildConfig s"
  by (simp add: saveConfig_def console_def Let_def split: option.splits)

lemma config_file_saveConfig:
  "config_file (saveConfig env s) =
     (if writeFileSync env CONFIG_FILE = None then Stored (guildConfig s) else config_file s)"
  by (simp add: saveConfig_def console_def Let_def split: option.splits)

lemma guildConfig_logEvent_catch:
  "guildConfig (logEvent_catch env guild e s) =
     (if unreachable e then (guildConfig s)(guild_id guild := None) else guildConfig s)"
  by (simp add: logEvent_catch_def unreachable_def Let_def guildConfig_saveConfig guildConfig_console)

lemma config_file_logEvent_catch:
  "config_file (logEvent_catch env guild e s) =
     (if unreachable e \<and> writeFileSync env CONFIG_FILE = None
      then Stored ((guildConfig s)(guild_id guild := None)) else config_file s)"
  by (simp add: logEvent_catch_def unreachable_def Let_def config_file_saveConfig console_def)

lemma logEvent_failed:
  assumes "guildConfig s (guild_id guild) = Some channelId" "channelId \<noteq> []"
    and "delivery_fails env guild channelId (build_embed env guild title description color user) e"
  shows "guildConfig (logEvent env guild title description color user s) =
           (if unreachable e then (guildConfig s)(guild_id guild := None) else guildConfig s)"
    and "config_file (logEvent env guild title description color user s) =
           (if unreachable e \<and> writeFileSync env CONFIG_FILE = None
            then Stored ((guildConfig s)(guild_id guild := None)) else config_file s)"
proof -
  have "guildConfig (logEvent env guild title description color user s) =
           (if unreachable e then (guildConfig s)(guild_id guild := None) else guildConfig s)
      \<and> config_file (logEvent env guild title description color user s) =
           (if unreachable e \<and> writeFileSync env CONFIG_FILE = None
            then Stored ((guildConfig s)(guild_id guild := None)) else config_file s)"
  proof (cases "channels_fetch env (guild_id guild) channelId")
    case (Inl e')
    then have "e' = e" using assms(3) by (simp add: delivery_fails_def)
    then show ?thesis
      using assms(1,2) Inl
      by (simp add: logEvent_def Let_def guildConfig_logEvent_catch config_file_logEvent_catch)
  next
    case (Inr r)
    then obtain channel where c: "r = Some channel" "channel_type channel = 0"
        "channel_send env (channel_id channel) (build_embed env guild title description color user) = Some e"
      using assms(3) by (auto simp: delivery_fails_def split: option.splits)
    then show ?thesis
      using assms(1,2) Inr
      by (simp add: logEvent_def Let_def guildConfig_logEvent_catch config_file_logEvent_catch)
  qed
  then show "guildConfig (logEvent env guild title description color user s) =
           (if unreachable e then (guildConfig s)(guild_id guild := None) else guildConfig s)"
    and "config_file (logEvent env guild title description color user s) =
           (if unreachable e \<and> writeFileSync env CONFIG_FILE = None
            then Stored ((guildConfig s)(guild_id guild := None)) else config_file s)"
    by simp_all
qed

lemma guildConfig_reload:
  assumes "config_file s = Stored cfg"
  shows "guildConfig (loadConfig (startup s)) = cfg \<or> guildConfig (loadConfig (startup s)) = Map.empty"
  using assms
  by (auto simp: loadConfig_def startup_def console_def Let_def split: file_content.splits)

text \<open>
  C8. Guild G has a log channel, and the delivery of a record fails with the error \<open>e\<close>.
  When \<open>e\<close> carries the code 10003 (unknown channel) or 50001 (missing access), the entry
  of G is removed from \<open>guildConfig\<close> and the entries of the other guilds stay; when the
  file system takes the write, the configuration file then holds the store without G,
  and a process that starts on these files and loads them has no entry for G. With any
  other error the store and its file are as before.
\<close>

theorem logEvent_evicts_unreachable_destination:
  assumes "guildConfig s (guild_id guild) = Some channelId" "channelId \<noteq> []"
    and "delivery_fails env guild channelId (build_embed env guild title description color user) e"
  shows "(unreachable e \<longrightarrow>
           guildConfig (logEvent env guild title description color user s)
             = (guildConfig s)(guild_id guild := None)
           \<and> (writeFileSync env CONFIG_FILE = None \<longrightarrow>
                config_file (logEvent env guild title description color user s)
                  = Stored ((guildConfig s)(guild_id guild := None))
                \<and> guildConfig (loadConfig (startup (logEvent env guild title description color user s)))
                     (guild_id guild) = None))
     \<and> (\<not> unreachable e \<longrightarrow>
           guildConfig (logEvent env guild title description color user s) = guildConfig s
           \<and> config_file (logEvent env guild title description color user s) = config_file s)"
proof (intro conjI impI)
  assume u: "unreachable e"
  show "guildConfig (logEvent env guild title description color user s)
             = (guildConfig s)(guild_id guild := None)"
    using logEvent_failed(1) [OF assms] u by simp
  assume w: "writeFileSync env CONFIG_FILE = None"
  show f: "config_file (logEvent env guild title description color user s)
                  = Stored ((guildConfig s)(guild_id guild := None))"
    using logEvent_failed(2) [OF assms] u w by simp
  show "guildConfig (loadConfig (startup (logEvent env guild title description color user s)))
                     (guild_id guild) = None"
    using guildConfig_reload [OF f] by auto
next
  assume "\<not> unreachable e"
  then show "guildConfig (logEvent env guild title description color user s) = guildConfig s"
    and "config_file (logEvent env guild title description color user s) = config_file s"
    using logEvent_failed [OF assms] by simp_all
qed

theorem logEvent_evicts_unreachable_destination_witness:
  "guildConfig configured_state (guild_id guild1) = Some ''c1''
   \<and> delivery_fails deleted_channel_env guild1 ''c1''
        (build_embed deleted_channel_env guild1 title_left ''text'' Red None)
        (DiscordAPIError 10003 ''Unknown Channel'')
   \<and> unreachable (DiscordAPIError 10003 ''Unknown Channel'')
   \<and> guildConfig (logEvent deleted_channel_env guild1 title_left ''text'' Red None configured_state) ''g1'' = None
   \<and> config_file (logEvent deleted_channel_env guild1 title_left ''text'' Red None configured_state)
       = Stored ([''g1'' \<mapsto> ''c1''](''g1'' := None))
   \<and> guildConfig (loadConfig (startup
        (logEvent deleted_channel_env guild1 title_left ''text'' Red None configured_state))) ''g1'' = None
   \<and> delivery_fails no_permission_env guild1 ''c1''
        (build_embed no_permission_env guild1 title_left ''text'' Red None)
        (DiscordAPIError 50013 ''Missing Permissions'')
   \<and> \<not> unreachable (DiscordAPIError 50013 ''Missing Permissions'')
   \<and> guildConfig (logEvent no_permission_env guild1 title_left ''text'' Red None configured_state) ''g1''
       = Some ''c1''"
proof -
  have g: "guild_id guild1 = ''g1''" "guildConfig configured_state = [''g1'' \<mapsto> ''c1'']"
    by (simp_all add: guild1_def configured_state_def fresh_state_def)
  have c: "guildConfig configured_state (guild_id guild1) = Some ''c1''" "''c1'' \<noteq> []"
    by (simp_all add: g)
  have d: "delivery_fails deleted_channel_env guild1 ''c1''
        (build_embed deleted_channel_env guild1 title_left ''text'' Red None)
        (DiscordAPIError 10003 ''Unknown Channel'')"
    by (simp add: delivery_fails_def deleted_channel_env_def)
  have r: "delivery_fails no_permission_env guild1 ''c1''
        (build_embed no_permission_env guild1 title_left ''text'' Red None)
        (DiscordAPIError 50013 ''Missing Permissions'')"
    by (simp add: delivery_fails_def no_permission_env_def quiet_env_def log_channel1_def)
  have u: "unreachable (DiscordAPIError 10003 ''Unknown Channel'')"
    "\<not> unreachable (DiscordAPIError 50013 ''Missing Permissions'')"
    by (simp_all add: unreachable_def)
  have w: "writeFileSync deleted_channel_env CONFIG_FILE = None"
    by (simp add: deleted_channel_env_def quiet_env_def)
  from logEvent_evicts_unreachable_destination [OF c d] u(1) w
  have E: "guildConfig (logEvent deleted_channel_env guild1 title_left ''text'' Red None configured_state) ''g1'' = None"
    "config_file (logEvent deleted_channel_env guild1 title_left ''text'' Red None configured_state)
       = Stored ([''g1'' \<mapsto> ''c1''](''g1'' := None))"
    "guildConfig (loadConfig (startup
        (logEvent deleted_channel_env guild1 title_left ''text'' Red None configured_state))) ''g1'' = None"
    by (simp_all add: g)
  from logEvent_evicts_unreachable_destination [OF c r] u(2)
  have K: "guildConfig (logEvent no_permission_env guild1 title_left ''text'' Red None configured_state) ''g1''
       = Some ''c1''"
    by (simp add: g)
  show ?thesis using c(1) d u E r K by simp
qed

section \<open>Nickname changes\<close>

lemma renamed_state_eq:
  "renamed_state = fresh_state\<lparr>nicknameHistory := [''g1'' \<mapsto> [''42'' \<mapsto> [''annie'', ''ann'']]],
       config_file := Stored Map.empty,
       history_file := Stored [''g1'' \<mapsto> [''42'' \<mapsto> [''annie'', ''ann'']]]\<rparr>"
  by (simp add: renamed_state_def recordNickname_def saveConfig_def quiet_env_def guild1_def member1_def
        fresh_state_def Let_def)

text \<open>
  C9. The claim is that the first stored entry is the nickname just recorded, so that the
  rendered list never shows it. The code does not keep this when the member returns to
  a nickname that is already stored: \<open>recordNickname\<close> leaves the list as it is, with the
  previous nickname in front, and \<open>getNicknameHistory\<close> drops that one. Here the member
  goes from \<open>annie\<close> back to \<open>ann\<close>: the stored list stays \<open>annie, ann\<close>, and the record
  shows \<open>ann\<close>, the new nickname, as the only past nickname.
\<close>

theorem guildMemberUpdate_shows_current_nickname_as_past:
  "stored_history renamed_state ''g1'' ''42'' = [''annie'', ''ann'']
   \<and> guildMemberUpdate quiet_env member_annie member_ann renamed_state =
       (None, logEvent quiet_env guild1 title_nickname
                (''**Old Nick:** annie'' @ nl @ ''**New Nick:** ann'' @ nl @ nl
                 @ ''**Past Nicknames:** ann'')
                Blue (Some (AsMember member_ann)) renamed_state)
   \<and> getNicknameHistory (recordNickname quiet_env (Some guild1) (Some member_ann) (Some ''ann'') renamed_state)
        ''g1'' ''42'' = ''ann''
   \<and> stored_history (recordNickname quiet_env (Some guild1) (Some member_ann) (Some ''ann'') renamed_state)
        ''g1'' ''42'' = [''annie'', ''ann'']"
proof -
  have h: "stored_history renamed_state ''g1'' ''42'' = [''annie'', ''ann'']"
    by (simp add: renamed_state_eq stored_history_def)
  have rec: "recordNickname quiet_env (Some guild1) (Some member_ann) (Some ''ann'') renamed_state
               = renamed_state"
    by (simp add: renamed_state_eq recordNickname_def guild1_def member_ann_def member1_def Let_def
          fresh_state_def)
  have past: "getNicknameHistory renamed_state ''g1'' ''42'' = ''ann''"
    by (simp add: getNicknameHistory_def h)
  have m: "member_guild member_ann = guild1" "member_id member_ann = ''42''" "guild_id guild1 = ''g1''"
    "member_nickname member_ann = Some ''ann''" "member_nickname member_annie = Some ''annie''"
    "\<not> member_partial member_ann" "\<not> member_partial member_annie"
    "member_roles member_ann = []" "member_roles member_annie = []"
    "member_communicationDisabledUntil member_ann = None"
    "member_communicationDisabledUntil member_annie = None"
    "user_username (member_user member_ann) = ''ann''"
    by (simp_all add: member_ann_def member_annie_def member1_def guild1_def user1_def)
  have nick: "nickname_changed quiet_env member_annie member_ann renamed_state =
       logEvent quiet_env guild1 title_nickname
         (''**Old Nick:** annie'' @ nl @ ''**New Nick:** ann'' @ nl @ nl @ ''**Past Nicknames:** ann'')
         Blue (Some (AsMember member_ann)) renamed_state"
    by (simp add: nickname_changed_def Let_def m rec past)
  have upd: "guildMemberUpdate quiet_env member_annie member_ann renamed_state =
       (None, logEvent quiet_env guild1 title_nickname
                (''**Old Nick:** annie'' @ nl @ ''**New Nick:** ann'' @ nl @ nl
                 @ ''**Past Nicknames:** ann'')
                Blue (Some (AsMember member_ann)) renamed_state)"
    by (simp add: guildMemberUpdate_def Let_def m nick roles_changed_def timeout_changed_def)
  show ?thesis using h upd rec past by simp
qed

end
